theory Spec2Isabelle
  imports Complex_Main
begin

section \<open>Data model\<close>

text \<open>
  The monitoring backend keeps its state in PostgreSQL tables (schema \<open>ankercloud\<close>)
  and in Redis streams. A table is modelled as the list of its rows in insertion
  order: none of the metric tables has a primary key or a uniqueness constraint, so
  equal rows may occur several times. Identifiers (UUIDs) are strings. A
  \<open>TIMESTAMPTZ\<close> value is an integer number of milliseconds since the Unix epoch,
  the resolution of the ISO-8601 strings the routes exchange. Nullable columns are
  options. \<open>NUMERIC\<close> values are rationals, \<open>BIGINT\<close> and \<open>INTEGER\<close> values are
  integers. A JavaScript number is the rational that its decimal text denotes, the
  text being what PostgreSQL receives (a JSON number too large for a double is
  \<open>Infinity\<close>, which no column written here takes: it behaves as a number beyond
  every range). A string is a text of characters with codes below 256. The
  timestamp of a request is the instant its text denotes. The database is taken to
  be reachable; a statement fails only when a parameter is no value of its column's
  type.
\<close>

type_synonym uuid = string
type_synonym timestamp = int

datatype resource_type = Server | Website | Network | Database
datatype resource_status = Online | Offline | Warning | Critical | Unknown
datatype alert_severity = Info | SevWarning | SevCritical
datatype alert_state = Active | Resolved | Acknowledged

record api_key =
  ak_user_id :: uuid
  ak_key_hash :: string
  ak_last_used :: "timestamp option"
  ak_expires_at :: "timestamp option"
  ak_is_active :: bool

record resource =
  r_id :: uuid
  r_user_id :: uuid
  r_type :: resource_type
  r_name :: string
  r_status :: resource_status
  r_last_seen_at :: "timestamp option"

text \<open>
  Of \<open>server_metrics\<close> the columns below are kept: those a query of the routes or
  \<open>get_resource_status\<close> names. The remaining columns (network bytes, process
  count, load averages, uptime) are written by the ingestion route and read nowhere;
  their parameters still decide whether the \<open>INSERT\<close> succeeds. The same holds for
  the other metric tables.
\<close>

record server_metric =
  sm_time :: timestamp
  sm_resource_id :: uuid
  sm_cpu_usage_percent :: "rat option"
  sm_memory_used_mb :: "int option"
  sm_memory_total_mb :: "int option"
  sm_memory_usage_percent :: "rat option"
  sm_disk_used_mb :: "int option"
  sm_disk_total_mb :: "int option"
  sm_disk_usage_percent :: "rat option"

record website_metric =
  wm_time :: timestamp
  wm_resource_id :: uuid
  wm_status_code :: "int option"
  wm_response_time_ms :: "int option"
  wm_dns_time_ms :: "int option"
  wm_connect_time_ms :: "int option"
  wm_ttfb_ms :: "int option"
  wm_is_available :: "bool option"

record network_metric =
  nm_time :: timestamp
  nm_resource_id :: uuid
  nm_check_type :: "string option"
  nm_latency_ms :: "rat option"
  nm_packet_loss_percent :: "rat option"
  nm_is_available :: "bool option"

record database_metric =
  dm_time :: timestamp
  dm_resource_id :: uuid
  dm_connections_active :: "int option"
  dm_is_available :: "bool option"

record process_metric =
  pm_time :: timestamp
  pm_resource_id :: uuid
  pm_process_name :: "string option"
  pm_pid :: "int option"
  pm_cpu_percent :: "rat option"
  pm_memory_mb :: "int option"
  pm_status :: "string option"

record service_metric =
  vm_time :: timestamp
  vm_resource_id :: uuid
  vm_service_name :: "string option"
  vm_status :: "string option"
  vm_startup_type :: "string option"

record alert_policy =
  ap_id :: uuid
  ap_user_id :: uuid
  ap_resource_id :: uuid
  ap_metric_name :: string
  ap_condition :: string
  ap_threshold :: rat
  ap_duration_seconds :: int
  ap_severity :: alert_severity
  ap_is_active :: bool

record incident =
  i_id :: uuid
  i_alert_policy_id :: uuid
  i_resource_id :: uuid
  i_state :: alert_state
  i_severity :: alert_severity
  i_triggered_value :: "rat option"
  i_triggered_at :: timestamp
  i_resolved_at :: "timestamp option"
  i_acknowledged_at :: "timestamp option"
  i_acknowledged_by :: "uuid option"
  i_notes :: "string option"

record incident_history_row =
  ih_incident_id :: uuid
  ih_action :: string
  ih_performed_by :: uuid
  ih_details :: "string option"
  ih_created_at :: timestamp

text \<open>A value of a Redis stream field, before its conversion to a string.\<close>

datatype field_value = Num rat | Str string | Ts timestamp | Bool bool

text \<open>
  The whole state a request handler can touch: the tables, the Redis streams (each
  \<open>XADD\<close> recorded as the stream key with the entry's fields, oldest first),
  whether Redis can be reached, and the lines written through \<open>logger.error\<close> of
  utils/logger.ts (Fastify's own logger, which records unhandled errors, is another).
  While a call to an unreachable Redis fails, the client's handlers log on their
  own (\<open>Redis error:\<close> at each attempt to connect, \<open>Failed to connect to Redis:\<close>
  at the first call); how many lines depends on the attempts made, so they are a
  part of the state, \<open>redis_noise\<close>.
\<close>

record sys =
  api_keys :: "api_key list"
  resources :: "resource list"
  server_metrics :: "server_metric list"
  website_metrics :: "website_metric list"
  network_metrics :: "network_metric list"
  database_metrics :: "database_metric list"
  process_metrics :: "process_metric list"
  service_metrics :: "service_metric list"
  alert_policies :: "alert_policy list"
  incidents :: "incident list"
  incident_history :: "incident_history_row list"
  redis_up :: bool
  redis_noise :: "string list"
  streams :: "(string \<times> (string \<times> field_value) list) list"
  error_log :: "string list"

text \<open>
  A failed request: the HTTP status with the \<open>error\<close> string of the body, or the
  400 answer of a failed zod parse with the paths of the offending fields.
\<close>

datatype http_error = HttpError nat string | ValidationError "string list"

section \<open>API keys (routes/ingest.ts, validateApiKey)\<close>

text \<open>
  \<open>validateApiKey\<close> reads the active keys and compares the presented key with each
  hash by \<open>bcrypt.compare\<close>, here the parameter \<open>cmp\<close>. The first matching row
  decides: an expired key is refused at once, otherwise \<open>last_used\<close> is stamped on
  every row with that hash. The result is \<open>isValid\<close>, \<open>userId\<close> and the new state.
\<close>

definition validateApiKey ::
  "(string \<Rightarrow> string \<Rightarrow> bool) \<Rightarrow> timestamp \<Rightarrow> sys \<Rightarrow> string \<Rightarrow> (bool \<times> uuid option) \<times> sys" where
  "validateApiKey cmp now s apiKey =
     (case find (\<lambda>row. cmp apiKey (ak_key_hash row)) (filter ak_is_active (api_keys s)) of
        None \<Rightarrow> ((False, None), s)
      | Some row \<Rightarrow>
          (if (case ak_expires_at row of None \<Rightarrow> False | Some e \<Rightarrow> e < now)
           then ((False, None), s)
           else ((True, Some (ak_user_id row)),
                 s\<lparr>api_keys :=
                     map (\<lambda>k. if ak_key_hash k = ak_key_hash row
                               then k\<lparr>ak_last_used := Some now\<rparr> else k)
                         (api_keys s)\<rparr>)))"

section \<open>Redis streams (utils/redis.ts, addToStream)\<close>

text \<open>
  \<open>addToStream\<close> throws when Redis cannot be reached (\<open>getRedis\<close> or \<open>xadd\<close>
  rejects, after the client has logged its own errors) and when the stream name is
  empty; otherwise it appends one entry.
\<close>

datatype redis_error = StreamNameRequired | RedisUnavailable

definition addToStream ::
  "sys \<Rightarrow> string \<Rightarrow> (string \<times> field_value) list \<Rightarrow> (redis_error \<times> sys) + sys" where
  "addToStream s stream data =
     (if \<not> redis_up s
      then Inl (RedisUnavailable, s\<lparr>error_log := error_log s @ redis_noise s\<rparr>)
      else if stream = [] then Inl (StreamNameRequired, s)
      else Inr (s\<lparr>streams := streams s @ [(stream, data)]\<rparr>))"

section \<open>Status derivation (database/schema.sql, get_resource_status)\<close>

text \<open>
  SQL comparisons are three-valued: a comparison with \<open>NULL\<close> is \<open>NULL\<close>, and
  \<open>OR\<close> is true as soon as one operand is true. An \<open>IF\<close> takes its branch only
  when the condition is true.
\<close>

definition sql_gt :: "rat option \<Rightarrow> rat \<Rightarrow> bool option" where
  "sql_gt v c = (case v of None \<Rightarrow> None | Some x \<Rightarrow> Some (c < x))"

definition sql_or :: "bool option \<Rightarrow> bool option \<Rightarrow> bool option" where
  "sql_or a b =
     (if a = Some True \<or> b = Some True then Some True
      else if a = None \<or> b = None then None else Some False)"

definition sql_true :: "bool option \<Rightarrow> bool" where
  "sql_true c = (c = Some True)"

text \<open>Five minutes, the interval of \<open>get_resource_status\<close>, in milliseconds.\<close>

definition freshness_horizon :: int where
  "freshness_horizon = 300000"

text \<open>
  \<open>ORDER BY time DESC LIMIT 1\<close>: a row of greatest time. Among rows of equal time
  PostgreSQL may return any; the model returns the one stored first.
\<close>

fun latest_by :: "('a \<Rightarrow> timestamp) \<Rightarrow> 'a list \<Rightarrow> 'a option" where
  "latest_by t [] = None"
| "latest_by t (x # xs) =
     (case latest_by t xs of
        None \<Rightarrow> Some x
      | Some y \<Rightarrow> if t x < t y then Some y else Some x)"

definition recent_metric :: "timestamp \<Rightarrow> sys \<Rightarrow> uuid \<Rightarrow> server_metric option" where
  "recent_metric now s p_resource_id =
     latest_by sm_time
       (filter (\<lambda>m. sm_resource_id m = p_resource_id \<and> now - freshness_horizon < sm_time m)
               (server_metrics s))"

definition derive_status :: "server_metric \<Rightarrow> resource_status" where
  "derive_status m =
     (if sql_true (sql_or (sql_or (sql_gt (sm_cpu_usage_percent m) 90)
                                  (sql_gt (sm_memory_usage_percent m) 90))
                          (sql_gt (sm_disk_usage_percent m) 90))
      then Critical
      else if sql_true (sql_or (sql_or (sql_gt (sm_cpu_usage_percent m) 75)
                                       (sql_gt (sm_memory_usage_percent m) 75))
                               (sql_gt (sm_disk_usage_percent m) 75))
      then Warning
      else Online)"

definition get_resource_status :: "timestamp \<Rightarrow> sys \<Rightarrow> uuid \<Rightarrow> resource_status" where
  "get_resource_status now s p_resource_id =
     (case recent_metric now s p_resource_id of
        None \<Rightarrow> Unknown
      | Some m \<Rightarrow> derive_status m)"

section \<open>Parameters and column types (database/schema.sql)\<close>

text \<open>
  A \<open>NUMERIC(p,2)\<close> column keeps two decimals: PostgreSQL rounds the value it is
  given, halves away from zero.
\<close>

definition numeric_2 :: "rat \<Rightarrow> rat" where
  "numeric_2 x =
     (if 0 \<le> x then of_int \<lfloor>x * 100 + 1 / 2\<rfloor> / 100
      else - (of_int \<lfloor>- x * 100 + 1 / 2\<rfloor> / 100))"

text \<open>
  The conversion of a parameter to the type of its column; \<open>None\<close> is the error
  that makes the statement fail. \<open>BIGINT\<close> and \<open>INTEGER\<close> take whole numbers within
  their range. \<open>NUMERIC(p,2)\<close> takes a number that, once rounded, has at most
  \<open>p - 2\<close> digits before the point: \<open>pg_numeric d\<close> with \<open>d = p - 2\<close>. No string
  may hold the character of code 0, and \<open>VARCHAR(n)\<close> takes at most \<open>n\<close>
  characters, cutting off what exceeds them when that is spaces only.
\<close>

definition pg_bigint :: "rat \<Rightarrow> int option" where
  "pg_bigint x =
     (if of_int \<lfloor>x\<rfloor> = x \<and> - (2 ^ 63) \<le> x \<and> x < 2 ^ 63 then Some \<lfloor>x\<rfloor> else None)"

definition pg_integer :: "rat \<Rightarrow> int option" where
  "pg_integer x =
     (if of_int \<lfloor>x\<rfloor> = x \<and> - (2 ^ 31) \<le> x \<and> x < 2 ^ 31 then Some \<lfloor>x\<rfloor> else None)"

definition pg_numeric :: "nat \<Rightarrow> rat \<Rightarrow> rat option" where
  "pg_numeric d x = (if \<bar>numeric_2 x\<bar> < 10 ^ d then Some (numeric_2 x) else None)"

definition pg_text :: "string \<Rightarrow> string option" where
  "pg_text v = (if CHR 0x00 \<in> set v then None else Some v)"

definition pg_varchar :: "nat \<Rightarrow> string \<Rightarrow> string option" where
  "pg_varchar n v =
     (if CHR 0x00 \<in> set v then None
      else if length v \<le> n then Some v
      else if list_all (\<lambda>c. c = CHR '' '') (drop n v) then Some (take n v)
      else None)"

text \<open>
  \<open>v || null\<close>: an absent or zero number, or an absent or empty string, becomes
  \<open>NULL\<close>, which every column of the metric tables but \<open>time\<close> and
  \<open>resource_id\<close> takes.
\<close>

definition or_null :: "'a::zero option \<Rightarrow> 'a option" where
  "or_null v = (case v of None \<Rightarrow> None | Some x \<Rightarrow> if x = 0 then None else Some x)"

definition or_null_string :: "string option \<Rightarrow> string option" where
  "or_null_string v = (case v of None \<Rightarrow> None | Some x \<Rightarrow> if x = [] then None else Some x)"

definition nullable_ok :: "('a \<Rightarrow> 'b option) \<Rightarrow> 'a option \<Rightarrow> bool" where
  "nullable_ok conv v = (case v of None \<Rightarrow> True | Some x \<Rightarrow> conv x \<noteq> None)"

section \<open>Ingestion routes (routes/ingest.ts)\<close>

text \<open>
  The request body after JSON decoding. zod checks the three percentages against
  [0, 100] and the check type against its three values; the other checks of the
  schemas (field presence, number and string types, UUID and datetime syntax) hold
  by the types of the model. An absent \<open>processes\<close> or \<open>services\<close> array is the
  empty one. The API key is the \<open>x-api-key\<close> header.
\<close>

record server_payload =
  sp_cpuUsagePercent :: rat
  sp_memoryUsedMb :: rat
  sp_memoryTotalMb :: rat
  sp_memoryUsagePercent :: rat
  sp_diskUsedMb :: rat
  sp_diskTotalMb :: rat
  sp_diskUsagePercent :: rat
  sp_networkInBytes :: rat
  sp_networkOutBytes :: rat
  sp_processCount :: rat
  sp_loadAvg1m :: "rat option"
  sp_loadAvg5m :: "rat option"
  sp_loadAvg15m :: "rat option"
  sp_uptimeSeconds :: rat

record process_entry =
  pe_name :: string
  pe_pid :: rat
  pe_cpuPercent :: rat
  pe_memoryMb :: rat
  pe_status :: string

record service_entry =
  se_name :: string
  se_status :: string
  se_startupType :: "string option"

record server_request =
  sq_api_key :: "string option"
  sq_resourceId :: uuid
  sq_metrics :: server_payload
  sq_processes :: "process_entry list"
  sq_services :: "service_entry list"
  sq_timestamp :: "timestamp option"

record website_payload =
  wp_statusCode :: rat
  wp_responseTimeMs :: rat
  wp_dnsTimeMs :: "rat option"
  wp_connectTimeMs :: "rat option"
  wp_tlsTimeMs :: "rat option"
  wp_ttfbMs :: "rat option"
  wp_totalTimeMs :: rat
  wp_contentSizeBytes :: "rat option"
  wp_isAvailable :: bool
  wp_errorMessage :: "string option"
  wp_location :: "string option"

record website_request =
  wq_api_key :: "string option"
  wq_resourceId :: uuid
  wq_metrics :: website_payload
  wq_timestamp :: "timestamp option"

record network_payload =
  np_checkType :: string
  np_latencyMs :: "rat option"
  np_packetLossPercent :: "rat option"
  np_isAvailable :: bool
  np_hopCount :: "rat option"
  np_errorMessage :: "string option"

record network_request =
  nq_api_key :: "string option"
  nq_resourceId :: uuid
  nq_metrics :: network_payload
  nq_timestamp :: "timestamp option"

definition percent_ok :: "rat \<Rightarrow> bool" where
  "percent_ok x = (0 \<le> x \<and> x \<le> 100)"

definition serverMetricsSchema_issues :: "server_payload \<Rightarrow> string list" where
  "serverMetricsSchema_issues p =
     (if percent_ok (sp_cpuUsagePercent p) then [] else [''metrics.cpuUsagePercent'']) @
     (if percent_ok (sp_memoryUsagePercent p) then [] else [''metrics.memoryUsagePercent'']) @
     (if percent_ok (sp_diskUsagePercent p) then [] else [''metrics.diskUsagePercent''])"

definition networkMetricsSchema_issues :: "network_payload \<Rightarrow> string list" where
  "networkMetricsSchema_issues p =
     (if np_checkType p \<in> {''ping'', ''port'', ''traceroute''} then []
      else [''metrics.checkType''])"

text \<open>
  Whether the parameters of an \<open>INSERT\<close> are all values of their columns, and the
  row it then stores (every column but \<open>time\<close> and \<open>resource_id\<close> may be \<open>NULL\<close>).
\<close>

definition server_params_ok :: "server_payload \<Rightarrow> bool" where
  "server_params_ok p =
     (pg_numeric 3 (sp_cpuUsagePercent p) \<noteq> None \<and>
      pg_bigint (sp_memoryUsedMb p) \<noteq> None \<and>
      pg_bigint (sp_memoryTotalMb p) \<noteq> None \<and>
      pg_numeric 3 (sp_memoryUsagePercent p) \<noteq> None \<and>
      pg_bigint (sp_diskUsedMb p) \<noteq> None \<and>
      pg_bigint (sp_diskTotalMb p) \<noteq> None \<and>
      pg_numeric 3 (sp_diskUsagePercent p) \<noteq> None \<and>
      pg_bigint (sp_networkInBytes p) \<noteq> None \<and>
      pg_bigint (sp_networkOutBytes p) \<noteq> None \<and>
      pg_integer (sp_processCount p) \<noteq> None \<and>
      nullable_ok (pg_numeric 4) (or_null (sp_loadAvg1m p)) \<and>
      nullable_ok (pg_numeric 4) (or_null (sp_loadAvg5m p)) \<and>
      nullable_ok (pg_numeric 4) (or_null (sp_loadAvg15m p)) \<and>
      pg_bigint (sp_uptimeSeconds p) \<noteq> None)"

definition server_row :: "timestamp \<Rightarrow> uuid \<Rightarrow> server_payload \<Rightarrow> server_metric" where
  "server_row ts rid p =
     \<lparr>sm_time = ts, sm_resource_id = rid,
      sm_cpu_usage_percent = pg_numeric 3 (sp_cpuUsagePercent p),
      sm_memory_used_mb = pg_bigint (sp_memoryUsedMb p),
      sm_memory_total_mb = pg_bigint (sp_memoryTotalMb p),
      sm_memory_usage_percent = pg_numeric 3 (sp_memoryUsagePercent p),
      sm_disk_used_mb = pg_bigint (sp_diskUsedMb p),
      sm_disk_total_mb = pg_bigint (sp_diskTotalMb p),
      sm_disk_usage_percent = pg_numeric 3 (sp_diskUsagePercent p)\<rparr>"

definition website_params_ok :: "website_payload \<Rightarrow> bool" where
  "website_params_ok p =
     (pg_integer (wp_statusCode p) \<noteq> None \<and>
      pg_integer (wp_responseTimeMs p) \<noteq> None \<and>
      nullable_ok pg_integer (or_null (wp_dnsTimeMs p)) \<and>
      nullable_ok pg_integer (or_null (wp_connectTimeMs p)) \<and>
      nullable_ok pg_integer (or_null (wp_tlsTimeMs p)) \<and>
      nullable_ok pg_integer (or_null (wp_ttfbMs p)) \<and>
      pg_integer (wp_totalTimeMs p) \<noteq> None \<and>
      nullable_ok pg_bigint (or_null (wp_contentSizeBytes p)) \<and>
      nullable_ok pg_text (or_null_string (wp_errorMessage p)) \<and>
      pg_varchar 100 (case or_null_string (wp_location p) of None \<Rightarrow> ''default'' | Some l \<Rightarrow> l)
        \<noteq> None)"

definition website_row :: "timestamp \<Rightarrow> uuid \<Rightarrow> website_payload \<Rightarrow> website_metric" where
  "website_row ts rid p =
     \<lparr>wm_time = ts, wm_resource_id = rid,
      wm_status_code = pg_integer (wp_statusCode p),
      wm_response_time_ms = pg_integer (wp_responseTimeMs p),
      wm_dns_time_ms = Option.bind (or_null (wp_dnsTimeMs p)) pg_integer,
      wm_connect_time_ms = Option.bind (or_null (wp_connectTimeMs p)) pg_integer,
      wm_ttfb_ms = Option.bind (or_null (wp_ttfbMs p)) pg_integer,
      wm_is_available = Some (wp_isAvailable p)\<rparr>"

definition network_params_ok :: "network_payload \<Rightarrow> bool" where
  "network_params_ok p =
     (pg_varchar 50 (np_checkType p) \<noteq> None \<and>
      nullable_ok (pg_numeric 6) (or_null (np_latencyMs p)) \<and>
      nullable_ok (pg_numeric 3) (or_null (np_packetLossPercent p)) \<and>
      nullable_ok pg_integer (or_null (np_hopCount p)) \<and>
      nullable_ok pg_text (or_null_string (np_errorMessage p)))"

definition network_row :: "timestamp \<Rightarrow> uuid \<Rightarrow> network_payload \<Rightarrow> network_metric" where
  "network_row ts rid p =
     \<lparr>nm_time = ts, nm_resource_id = rid,
      nm_check_type = pg_varchar 50 (np_checkType p),
      nm_latency_ms = Option.bind (or_null (np_latencyMs p)) (pg_numeric 6),
      nm_packet_loss_percent = Option.bind (or_null (np_packetLossPercent p)) (pg_numeric 3),
      nm_is_available = Some (np_isAvailable p)\<rparr>"

definition process_params_ok :: "process_entry \<Rightarrow> bool" where
  "process_params_ok e =
     (pg_varchar 255 (pe_name e) \<noteq> None \<and>
      pg_integer (pe_pid e) \<noteq> None \<and>
      pg_numeric 3 (pe_cpuPercent e) \<noteq> None \<and>
      pg_bigint (pe_memoryMb e) \<noteq> None \<and>
      pg_varchar 50 (pe_status e) \<noteq> None)"

definition process_row :: "timestamp \<Rightarrow> uuid \<Rightarrow> process_entry \<Rightarrow> process_metric" where
  "process_row ts rid e =
     \<lparr>pm_time = ts, pm_resource_id = rid,
      pm_process_name = pg_varchar 255 (pe_name e),
      pm_pid = pg_integer (pe_pid e),
      pm_cpu_percent = pg_numeric 3 (pe_cpuPercent e),
      pm_memory_mb = pg_bigint (pe_memoryMb e),
      pm_status = pg_varchar 50 (pe_status e)\<rparr>"

definition service_params_ok :: "service_entry \<Rightarrow> bool" where
  "service_params_ok e =
     (pg_varchar 255 (se_name e) \<noteq> None \<and>
      pg_varchar 50 (se_status e) \<noteq> None \<and>
      nullable_ok (pg_varchar 50) (or_null_string (se_startupType e)))"

definition service_row :: "timestamp \<Rightarrow> uuid \<Rightarrow> service_entry \<Rightarrow> service_metric" where
  "service_row ts rid e =
     \<lparr>vm_time = ts, vm_resource_id = rid,
      vm_service_name = pg_varchar 255 (se_name e),
      vm_status = pg_varchar 50 (se_status e),
      vm_startup_type = Option.bind (or_null_string (se_startupType e)) (pg_varchar 50)\<rparr>"

text \<open>
  The first steps are the same in every ingestion route: the header must be present
  and not empty, the key must validate, and only then is the body parsed.
\<close>

definition check_api_key ::
  "(string \<Rightarrow> string \<Rightarrow> bool) \<Rightarrow> timestamp \<Rightarrow> sys \<Rightarrow> string option \<Rightarrow> (http_error + uuid option) \<times> sys" where
  "check_api_key cmp now s hdr =
     (case hdr of
        None \<Rightarrow> (Inl (HttpError 401 ''API key required''), s)
      | Some apiKey \<Rightarrow>
          (if apiKey = [] then (Inl (HttpError 401 ''API key required''), s)
           else (case validateApiKey cmp now s apiKey of
                   ((isValid, userId), s') \<Rightarrow>
                     (if \<not> isValid then (Inl (HttpError 401 ''Invalid API key''), s')
                      else (Inr userId, s')))))"

text \<open>
  \<open>SELECT id FROM resources WHERE id = $1 AND user_id = $2 AND type = $3\<close> finds a row.
\<close>

definition resource_owned :: "sys \<Rightarrow> uuid \<Rightarrow> uuid option \<Rightarrow> resource_type \<Rightarrow> bool" where
  "resource_owned s rid userId ty =
     list_ex (\<lambda>r. r_id r = rid \<and> Some (r_user_id r) = userId \<and> r_type r = ty) (resources s)"

text \<open>\<open>UPDATE resources SET last_seen_at = $1, status = ... WHERE id = ...\<close>.\<close>

definition update_resource :: "sys \<Rightarrow> uuid \<Rightarrow> timestamp \<Rightarrow> resource_status \<Rightarrow> sys" where
  "update_resource s rid ts st =
     s\<lparr>resources :=
         map (\<lambda>r. if r_id r = rid then r\<lparr>r_status := st, r_last_seen_at := Some ts\<rparr> else r)
             (resources s)\<rparr>"

text \<open>
  A statement that fails: the \<open>query\<close> helper of database/connection.ts logs it,
  the line standing for the statement and its error, and throws again.
\<close>

definition query_failed :: "sys \<Rightarrow> string \<Rightarrow> sys" where
  "query_failed s statement = s\<lparr>error_log := error_log s @ [statement]\<rparr>"

text \<open>
  The catch block of a route: the error is logged and the caller gets status 500.
\<close>

definition internal_error :: "sys \<Rightarrow> string \<Rightarrow> (http_error + 'a) \<times> sys" where
  "internal_error s line =
     (Inl (HttpError 500 ''Internal server error''), s\<lparr>error_log := error_log s @ [line]\<rparr>)"

text \<open>
  The loops over \<open>processes\<close> and \<open>services\<close>: one \<open>INSERT\<close> for each entry, each
  committed on its own, until one fails.
\<close>

fun insert_process_metrics :: "sys \<Rightarrow> timestamp \<Rightarrow> uuid \<Rightarrow> process_entry list \<Rightarrow> bool \<times> sys" where
  "insert_process_metrics s ts rid [] = (True, s)"
| "insert_process_metrics s ts rid (e # es) =
     (if \<not> process_params_ok e
      then (False, query_failed s ''INSERT INTO ankercloud.process_metrics'')
      else insert_process_metrics
             (s\<lparr>process_metrics := process_metrics s @ [process_row ts rid e]\<rparr>) ts rid es)"

fun insert_service_metrics :: "sys \<Rightarrow> timestamp \<Rightarrow> uuid \<Rightarrow> service_entry list \<Rightarrow> bool \<times> sys" where
  "insert_service_metrics s ts rid [] = (True, s)"
| "insert_service_metrics s ts rid (e # es) =
     (if \<not> service_params_ok e
      then (False, query_failed s ''INSERT INTO ankercloud.service_metrics'')
      else insert_service_metrics
             (s\<lparr>service_metrics := service_metrics s @ [service_row ts rid e]\<rparr>) ts rid es)"

text \<open>
  \<open>POST /ingest/server\<close>. No transaction spans the statements: what is stored
  before a failure stays stored. The status written is \<open>get_resource_status\<close>,
  evaluated by the \<open>UPDATE\<close> after the sample is stored. \<open>Inr ts\<close> is the answer
  \<open>200 {status: "ok", timestamp: ts}\<close>. The \<open>UPDATE\<close> of the \<open>servers\<close> table that
  precedes the publish is not part of the state: its parameters are the time, the
  process count (\<open>INTEGER\<close>) and the two totals (\<open>BIGINT\<close>), which the first
  \<open>INSERT\<close> has taken as the same types, so it cannot fail where that succeeded.
\<close>

definition ingest_server ::
  "(string \<Rightarrow> string \<Rightarrow> bool) \<Rightarrow> timestamp \<Rightarrow> sys \<Rightarrow> server_request \<Rightarrow> (http_error + timestamp) \<times> sys" where
  "ingest_server cmp now s req =
     (case check_api_key cmp now s (sq_api_key req) of
        (Inl e, s1) \<Rightarrow> (Inl e, s1)
      | (Inr userId, s1) \<Rightarrow>
          (if serverMetricsSchema_issues (sq_metrics req) \<noteq> []
           then (Inl (ValidationError (serverMetricsSchema_issues (sq_metrics req))), s1)
           else if \<not> resource_owned s1 (sq_resourceId req) userId Server
           then (Inl (HttpError 404 ''Resource not found''), s1)
           else
             (let ts = (case sq_timestamp req of None \<Rightarrow> now | Some t \<Rightarrow> t)
              in if \<not> server_params_ok (sq_metrics req)
                 then internal_error (query_failed s1 ''INSERT INTO ankercloud.server_metrics'')
                        ''Server metrics ingestion error''
                 else
                   (let s2 = s1\<lparr>server_metrics :=
                                 server_metrics s1 @ [server_row ts (sq_resourceId req) (sq_metrics req)]\<rparr>
                    in case insert_process_metrics s2 ts (sq_resourceId req) (sq_processes req) of
                         (False, sp) \<Rightarrow> internal_error sp ''Server metrics ingestion error''
                       | (True, sp) \<Rightarrow>
                           (case insert_service_metrics sp ts (sq_resourceId req) (sq_services req) of
                              (False, sv) \<Rightarrow> internal_error sv ''Server metrics ingestion error''
                            | (True, sv) \<Rightarrow>
                                (let s3 = update_resource sv (sq_resourceId req) ts
                                            (get_resource_status now sv (sq_resourceId req))
                                 in case addToStream s3 (''metrics:server:'' @ sq_resourceId req)
                                           [(''cpu'', Num (sp_cpuUsagePercent (sq_metrics req))),
                                            (''memory'', Num (sp_memoryUsagePercent (sq_metrics req))),
                                            (''disk'', Num (sp_diskUsagePercent (sq_metrics req))),
                                            (''timestamp'', Ts ts)] of
                                      Inl (err, s4) \<Rightarrow>
                                        internal_error s4 ''Server metrics ingestion error''
                                    | Inr s4 \<Rightarrow> (Inr ts, s4)))))))"

text \<open>
  \<open>POST /ingest/website\<close> and \<open>POST /ingest/network\<close> write the status of the
  arriving sample: \<open>isAvailable ? 'online' : 'offline'\<close>.
\<close>

definition ingest_website ::
  "(string \<Rightarrow> string \<Rightarrow> bool) \<Rightarrow> timestamp \<Rightarrow> sys \<Rightarrow> website_request \<Rightarrow> (http_error + timestamp) \<times> sys" where
  "ingest_website cmp now s req =
     (case check_api_key cmp now s (wq_api_key req) of
        (Inl e, s1) \<Rightarrow> (Inl e, s1)
      | (Inr userId, s1) \<Rightarrow>
          (if \<not> resource_owned s1 (wq_resourceId req) userId Website
           then (Inl (HttpError 404 ''Resource not found''), s1)
           else
             (let ts = (case wq_timestamp req of None \<Rightarrow> now | Some t \<Rightarrow> t)
              in if \<not> website_params_ok (wq_metrics req)
                 then internal_error (query_failed s1 ''INSERT INTO ankercloud.website_metrics'')
                        ''Website metrics ingestion error''
                 else
                   (let s2 = s1\<lparr>website_metrics :=
                                 website_metrics s1 @ [website_row ts (wq_resourceId req) (wq_metrics req)]\<rparr>;
                        status = (if wp_isAvailable (wq_metrics req) then Online else Offline);
                        s3 = update_resource s2 (wq_resourceId req) ts status
                    in case addToStream s3 (''metrics:website:'' @ wq_resourceId req)
                              [(''status'', Num (wp_statusCode (wq_metrics req))),
                               (''responseTime'', Num (wp_responseTimeMs (wq_metrics req))),
                               (''available'', Bool (wp_isAvailable (wq_metrics req))),
                               (''timestamp'', Ts ts)] of
                         Inl (err, s4) \<Rightarrow> internal_error s4 ''Website metrics ingestion error''
                       | Inr s4 \<Rightarrow> (Inr ts, s4)))))"

definition ingest_network ::
  "(string \<Rightarrow> string \<Rightarrow> bool) \<Rightarrow> timestamp \<Rightarrow> sys \<Rightarrow> network_request \<Rightarrow> (http_error + timestamp) \<times> sys" where
  "ingest_network cmp now s req =
     (case check_api_key cmp now s (nq_api_key req) of
        (Inl e, s1) \<Rightarrow> (Inl e, s1)
      | (Inr userId, s1) \<Rightarrow>
          (if networkMetricsSchema_issues (nq_metrics req) \<noteq> []
           then (Inl (ValidationError (networkMetricsSchema_issues (nq_metrics req))), s1)
           else if \<not> resource_owned s1 (nq_resourceId req) userId Network
           then (Inl (HttpError 404 ''Resource not found''), s1)
           else
             (let ts = (case nq_timestamp req of None \<Rightarrow> now | Some t \<Rightarrow> t)
              in if \<not> network_params_ok (nq_metrics req)
                 then internal_error (query_failed s1 ''INSERT INTO ankercloud.network_metrics'')
                        ''Network metrics ingestion error''
                 else
                   (let s2 = s1\<lparr>network_metrics :=
                                 network_metrics s1 @ [network_row ts (nq_resourceId req) (nq_metrics req)]\<rparr>;
                        status = (if np_isAvailable (nq_metrics req) then Online else Offline);
                        s3 = update_resource s2 (nq_resourceId req) ts status
                    in case addToStream s3 (''metrics:network:'' @ nq_resourceId req)
                              [(''checkType'', Str (np_checkType (nq_metrics req))),
                               (''latency'', Num (case or_null (np_latencyMs (nq_metrics req)) of
                                                    None \<Rightarrow> 0 | Some x \<Rightarrow> x)),
                               (''available'', Bool (np_isAvailable (nq_metrics req))),
                               (''timestamp'', Ts ts)] of
                         Inl (err, s4) \<Rightarrow> internal_error s4 ''Network metrics ingestion error''
                       | Inr s4 \<Rightarrow> (Inr ts, s4)))))"

text \<open>
  \<open>POST /ingest/batch\<close>. The request has no body (reading \<open>metrics\<close> of it throws
  and the outer catch block answers 500), or a body with no \<open>metrics\<close> array
  (answer 400), or a body with one; reading \<open>type\<close> of a \<open>null\<close> entry throws,
  which the loop catches, counts and logs. An entry of any other shape has a
  \<open>type\<close>, a string or nothing.
\<close>

datatype batch_entry = NullEntry | Entry "string option"

datatype batch_body = NoBody | NoMetricsArray | MetricsArray "batch_entry list"

record batch_counts =
  processed :: nat
  errors :: nat
  total :: nat

fun batch_loop :: "batch_entry list \<Rightarrow> nat \<times> nat \<times> string list \<Rightarrow> nat \<times> nat \<times> string list" where
  "batch_loop [] acc = acc"
| "batch_loop (metric # rest) (p, e, lg) =
     (case metric of
        NullEntry \<Rightarrow> batch_loop rest (p, e + 1, lg @ [''Batch metric processing error''])
      | Entry ty \<Rightarrow>
          (if ty = Some ''server'' then batch_loop rest (p + 1, e, lg)
           else if ty = Some ''website'' then batch_loop rest (p + 1, e, lg)
           else if ty = Some ''network'' then batch_loop rest (p + 1, e, lg)
           else batch_loop rest (p, e + 1, lg)))"

definition ingest_batch ::
  "(string \<Rightarrow> string \<Rightarrow> bool) \<Rightarrow> timestamp \<Rightarrow> sys \<Rightarrow> string option \<Rightarrow> batch_body \<Rightarrow> (http_error + batch_counts) \<times> sys" where
  "ingest_batch cmp now s hdr body =
     (case check_api_key cmp now s hdr of
        (Inl e, s1) \<Rightarrow> (Inl e, s1)
      | (Inr userId, s1) \<Rightarrow>
          (case body of
             NoBody \<Rightarrow> internal_error s1 ''Batch ingestion error''
           | NoMetricsArray \<Rightarrow> (Inl (HttpError 400 ''metrics array required''), s1)
           | MetricsArray metrics \<Rightarrow>
               (case batch_loop metrics (0, 0, []) of
                  (p, e, lg) \<Rightarrow>
                    (Inr \<lparr>processed = p, errors = e, total = length metrics\<rparr>,
                     s1\<lparr>error_log := error_log s1 @ lg\<rparr>))))"

section \<open>Bucketed queries (routes/metrics.ts, database/schema.sql)\<close>

text \<open>
  TimescaleDB's \<open>time_bucket\<close> for a fixed-width interval of \<open>w\<close> milliseconds:
  the start of the bucket holding \<open>t\<close>, buckets being aligned to Monday
  2000-01-03 00:00 UTC (946857600000 ms after the epoch).
\<close>

definition time_bucket :: "int \<Rightarrow> timestamp \<Rightarrow> timestamp" where
  "time_bucket w t = t - (t - 946857600000) mod w"

text \<open>\<open>GROUP BY bucket ORDER BY bucket ASC\<close>: each bucket once, ascending.\<close>

definition bucket_keys :: "int \<Rightarrow> timestamp list \<Rightarrow> timestamp list" where
  "bucket_keys w ts = sort (remdups (map (time_bucket w) ts))"

text \<open>SQL aggregates skip \<open>NULL\<close>s and are \<open>NULL\<close> when nothing is left.\<close>

fun non_null :: "'a option list \<Rightarrow> 'a list" where
  "non_null [] = []"
| "non_null (None # vs) = non_null vs"
| "non_null (Some v # vs) = v # non_null vs"

definition sql_avg :: "rat option list \<Rightarrow> rat option" where
  "sql_avg vs =
     (case non_null vs of [] \<Rightarrow> None | y # ys \<Rightarrow> Some (sum_list (y # ys) / of_nat (length (y # ys))))"

definition sql_min :: "rat option list \<Rightarrow> rat option" where
  "sql_min vs = (case non_null vs of [] \<Rightarrow> None | y # ys \<Rightarrow> Some (fold min ys y))"

definition sql_max :: "rat option list \<Rightarrow> rat option" where
  "sql_max vs = (case non_null vs of [] \<Rightarrow> None | y # ys \<Rightarrow> Some (fold max ys y))"

definition avg_int :: "int option list \<Rightarrow> rat option" where
  "avg_int vs = sql_avg (map (map_option of_int) vs)"

text \<open>\<open>SUM(CASE WHEN is_available THEN 1 ELSE 0 END)\<close> over a group.\<close>

definition count_available :: "bool option list \<Rightarrow> nat" where
  "count_available vs = length (filter (\<lambda>v. v = Some True) vs)"

record server_bucket =
  sb_bucket :: timestamp
  sb_cpu :: "rat option"
  sb_memory_mb :: "rat option"
  sb_disk_mb :: "rat option"

record website_bucket =
  wb_bucket :: timestamp
  wb_response_time :: "rat option"
  wb_dns_time :: "rat option"
  wb_connect_time :: "rat option"
  wb_ttfb :: "rat option"
  wb_checks :: nat
  wb_successful :: nat

record network_bucket =
  nb_bucket :: timestamp
  nb_latency :: "rat option"
  nb_packet_loss :: "rat option"
  nb_checks :: nat
  nb_successful :: nat

text \<open>
  The three range queries of \<open>GET /metrics/:resourceId\<close>: the rows of the resource
  with \<open>time >= start AND time <= end\<close>, grouped by bucket.
\<close>

definition server_range :: "int \<Rightarrow> uuid \<Rightarrow> timestamp \<Rightarrow> timestamp \<Rightarrow> server_metric list \<Rightarrow> server_bucket list" where
  "server_range w rid startTime endTime tbl =
     (let rows = filter (\<lambda>m. sm_resource_id m = rid \<and> startTime \<le> sm_time m \<and> sm_time m \<le> endTime) tbl
      in map (\<lambda>b. let g = filter (\<lambda>m. time_bucket w (sm_time m) = b) rows
                   in \<lparr>sb_bucket = b,
                       sb_cpu = sql_avg (map sm_cpu_usage_percent g),
                       sb_memory_mb = avg_int (map sm_memory_used_mb g),
                       sb_disk_mb = avg_int (map sm_disk_used_mb g)\<rparr>)
             (bucket_keys w (map sm_time rows)))"

definition website_range :: "int \<Rightarrow> uuid \<Rightarrow> timestamp \<Rightarrow> timestamp \<Rightarrow> website_metric list \<Rightarrow> website_bucket list" where
  "website_range w rid startTime endTime tbl =
     (let rows = filter (\<lambda>m. wm_resource_id m = rid \<and> startTime \<le> wm_time m \<and> wm_time m \<le> endTime) tbl
      in map (\<lambda>b. let g = filter (\<lambda>m. time_bucket w (wm_time m) = b) rows
                   in \<lparr>wb_bucket = b,
                       wb_response_time = avg_int (map wm_response_time_ms g),
                       wb_dns_time = avg_int (map wm_dns_time_ms g),
                       wb_connect_time = avg_int (map wm_connect_time_ms g),
                       wb_ttfb = avg_int (map wm_ttfb_ms g),
                       wb_checks = length g,
                       wb_successful = count_available (map wm_is_available g)\<rparr>)
             (bucket_keys w (map wm_time rows)))"

definition network_range :: "int \<Rightarrow> uuid \<Rightarrow> timestamp \<Rightarrow> timestamp \<Rightarrow> network_metric list \<Rightarrow> network_bucket list" where
  "network_range w rid startTime endTime tbl =
     (let rows = filter (\<lambda>m. nm_resource_id m = rid \<and> startTime \<le> nm_time m \<and> nm_time m \<le> endTime) tbl
      in map (\<lambda>b. let g = filter (\<lambda>m. time_bucket w (nm_time m) = b) rows
                   in \<lparr>nb_bucket = b,
                       nb_latency = sql_avg (map nm_latency_ms g),
                       nb_packet_loss = sql_avg (map nm_packet_loss_percent g),
                       nb_checks = length g,
                       nb_successful = count_available (map nm_is_available g)\<rparr>)
             (bucket_keys w (map nm_time rows)))"

text \<open>The caller as \<open>fastify.authenticate\<close> leaves it in \<open>request.user\<close>.\<close>

record user =
  u_id :: uuid
  u_role :: "string option"

definition visible_resource :: "user \<Rightarrow> uuid \<Rightarrow> resource \<Rightarrow> bool" where
  "visible_resource usr rid r =
     (if u_role usr = Some ''admin'' then r_id r = rid
      else r_id r = rid \<and> r_user_id r = u_id usr)"

datatype metrics_data =
    ServerData "server_bucket list"
  | WebsiteData "website_bucket list"
  | NetworkData "network_bucket list"

text \<open>
  \<open>GET /metrics/:resourceId\<close>, the \<open>data\<close> field of the answer. \<open>startTime\<close>,
  \<open>endTime\<close> and the interval are the values after the handler has filled in its
  defaults (the last hour, one minute); the interval is a width \<open>w\<close> in
  milliseconds. The statement of the database branch averages
  \<open>cpu_usage_percent\<close>, \<open>memory_used_mb\<close> and \<open>active_connections\<close>, columns that
  \<open>database_metrics\<close> does not have (its columns are \<open>connections_active\<close>,
  \<open>connections_idle\<close>, \<open>queries_per_second\<close>, \<open>slow_queries\<close>,
  \<open>replication_lag_seconds\<close>, \<open>database_size_mb\<close>, \<open>is_available\<close>,
  \<open>custom_metrics\<close>): PostgreSQL rejects it whatever the rows, and the handler,
  which has no catch block, fails with status 500.
\<close>

definition get_metrics ::
  "user \<Rightarrow> sys \<Rightarrow> uuid \<Rightarrow> timestamp \<Rightarrow> timestamp \<Rightarrow> int \<Rightarrow> http_error + metrics_data" where
  "get_metrics usr s resourceId startTime endTime w =
     (case find (visible_resource usr resourceId) (resources s) of
        None \<Rightarrow> Inl (HttpError 404 ''Resource not found'')
      | Some res \<Rightarrow>
          (case r_type res of
             Server \<Rightarrow> Inr (ServerData (server_range w (r_id res) startTime endTime (server_metrics s)))
           | Website \<Rightarrow> Inr (WebsiteData (website_range w (r_id res) startTime endTime (website_metrics s)))
           | Network \<Rightarrow> Inr (NetworkData (network_range w (r_id res) startTime endTime (network_metrics s)))
           | Database \<Rightarrow> Inl (HttpError 500 ''Internal Server Error'')))"

fun bucket_times :: "metrics_data \<Rightarrow> timestamp list" where
  "bucket_times (ServerData bs) = map sb_bucket bs"
| "bucket_times (WebsiteData bs) = map wb_bucket bs"
| "bucket_times (NetworkData bs) = map nb_bucket bs"

text \<open>
  The continuous aggregate \<open>server_metrics_1h\<close>, as its defining query gives it for
  one resource, ascending by bucket (one hour is 3600000 ms).
\<close>

record server_1h_row =
  h_bucket :: timestamp
  h_resource_id :: uuid
  h_avg_cpu :: "rat option"
  h_max_cpu :: "rat option"
  h_min_cpu :: "rat option"
  h_avg_memory :: "rat option"
  h_max_memory :: "rat option"
  h_avg_disk :: "rat option"

definition server_metrics_1h :: "server_metric list \<Rightarrow> uuid \<Rightarrow> server_1h_row list" where
  "server_metrics_1h tbl rid =
     (let rows = filter (\<lambda>m. sm_resource_id m = rid) tbl
      in map (\<lambda>b. let g = filter (\<lambda>m. time_bucket 3600000 (sm_time m) = b) rows
                   in \<lparr>h_bucket = b, h_resource_id = rid,
                       h_avg_cpu = sql_avg (map sm_cpu_usage_percent g),
                       h_max_cpu = sql_max (map sm_cpu_usage_percent g),
                       h_min_cpu = sql_min (map sm_cpu_usage_percent g),
                       h_avg_memory = sql_avg (map sm_memory_usage_percent g),
                       h_max_memory = sql_max (map sm_memory_usage_percent g),
                       h_avg_disk = sql_avg (map sm_disk_usage_percent g)\<rparr>)
             (bucket_keys 3600000 (map sm_time rows)))"

section \<open>Latest metrics (routes/metrics.ts, POST /latest)\<close>

text \<open>
  The summary built from the newest row: \<open>row.column ?? 0\<close> for each field, so a
  \<open>NULL\<close> and a column the table does not have both give 0. Only \<open>server_metrics\<close>
  has any of the columns read; \<open>time\<close> is never \<open>NULL\<close>.
\<close>

record latest_entry =
  le_name :: string
  le_type :: resource_type
  le_cpu_usage_percent :: rat
  le_memory_used_mb :: int
  le_memory_total_mb :: int
  le_disk_used_mb :: int
  le_disk_total_mb :: int
  le_network_usage_percent :: rat
  le_db_cpu_percent :: rat
  le_time :: timestamp

definition nullish0 :: "'a::zero option \<Rightarrow> 'a" where
  "nullish0 v = (case v of None \<Rightarrow> 0 | Some x \<Rightarrow> x)"

definition server_entry :: "resource \<Rightarrow> server_metric \<Rightarrow> latest_entry" where
  "server_entry res row =
     \<lparr>le_name = r_name res, le_type = r_type res,
      le_cpu_usage_percent = nullish0 (sm_cpu_usage_percent row),
      le_memory_used_mb = nullish0 (sm_memory_used_mb row),
      le_memory_total_mb = nullish0 (sm_memory_total_mb row),
      le_disk_used_mb = nullish0 (sm_disk_used_mb row),
      le_disk_total_mb = nullish0 (sm_disk_total_mb row),
      le_network_usage_percent = 0, le_db_cpu_percent = 0,
      le_time = sm_time row\<rparr>"

definition other_entry :: "resource \<Rightarrow> timestamp \<Rightarrow> latest_entry" where
  "other_entry res t =
     \<lparr>le_name = r_name res, le_type = r_type res,
      le_cpu_usage_percent = 0, le_memory_used_mb = 0, le_memory_total_mb = 0,
      le_disk_used_mb = 0, le_disk_total_mb = 0,
      le_network_usage_percent = 0, le_db_cpu_percent = 0,
      le_time = t\<rparr>"

text \<open>\<open>SELECT * FROM <table> WHERE resource_id = $1 ORDER BY time DESC LIMIT 1\<close>.\<close>

definition latest_of :: "sys \<Rightarrow> resource \<Rightarrow> latest_entry option" where
  "latest_of s res =
     (case r_type res of
        Server \<Rightarrow>
          map_option (server_entry res)
            (latest_by sm_time (filter (\<lambda>m. sm_resource_id m = r_id res) (server_metrics s)))
      | Website \<Rightarrow>
          map_option (\<lambda>row. other_entry res (wm_time row))
            (latest_by wm_time (filter (\<lambda>m. wm_resource_id m = r_id res) (website_metrics s)))
      | Network \<Rightarrow>
          map_option (\<lambda>row. other_entry res (nm_time row))
            (latest_by nm_time (filter (\<lambda>m. nm_resource_id m = r_id res) (network_metrics s)))
      | Database \<Rightarrow>
          map_option (\<lambda>row. other_entry res (dm_time row))
            (latest_by dm_time (filter (\<lambda>m. dm_resource_id m = r_id res) (database_metrics s))))"

fun latest_loop :: "sys \<Rightarrow> resource list \<Rightarrow> (uuid \<rightharpoonup> latest_entry) \<Rightarrow> (uuid \<rightharpoonup> latest_entry)" where
  "latest_loop s [] latestMetrics = latestMetrics"
| "latest_loop s (res # rest) latestMetrics =
     latest_loop s rest
       (case latest_of s res of
          None \<Rightarrow> latestMetrics
        | Some e \<Rightarrow> latestMetrics(r_id res \<mapsto> e))"

text \<open>
  \<open>POST /metrics/latest\<close>. The body, a JSON object, carries the \<open>resourceIds\<close>
  array or not (answer 400). The handler reads no clock: the age of a sample plays
  no part.
\<close>

definition metrics_latest :: "user \<Rightarrow> sys \<Rightarrow> uuid list option \<Rightarrow> http_error + (uuid \<rightharpoonup> latest_entry)" where
  "metrics_latest usr s body =
     (case body of
        None \<Rightarrow> Inl (HttpError 400 ''resourceIds array required'')
      | Some resourceIds \<Rightarrow>
          (let validResources =
                 filter (\<lambda>r. r_id r \<in> set resourceIds \<and>
                             (u_role usr = Some ''admin'' \<or> r_user_id r = u_id usr))
                        (resources s)
           in Inr (latest_loop s validResources Map.empty)))"

section \<open>Incident actions (routes/alerts.ts)\<close>

text \<open>
  The two routes run behind \<open>fastify.authenticate\<close>; \<open>userId\<close> is the id of the
  authenticated user. Neither route has a catch block: an error thrown in the
  handler is answered by Fastify with status 500, \<open>Internal Server Error\<close>.

  The handler first takes \<open>notes\<close> out of \<open>request.body\<close>, which throws when the
  request has no body (\<open>NoBody\<close>: it is \<open>undefined\<close> or \<open>null\<close>); \<open>Body None\<close> is a
  body without \<open>notes\<close>. The path segment \<open>:id\<close> is \<open>None\<close> when it is not the text
  of a UUID: the ownership query, which compares it with a \<open>UUID\<close> column, then
  fails, and the \<open>query\<close> helper logs that. The ownership check joins the incident
  with its policy. The two statements that follow run in one transaction, rolled
  back when a statement fails, which it does when the notes hold the character of
  code 0. The \<open>UPDATE\<close> names the incident by id only; it has no condition on the
  state. \<open>COALESCE(notes || E'\n' || $n, $n)\<close> is the new note when either side is
  \<open>NULL\<close>. The user who owns a policy exists (\<open>alert_policies.user_id\<close> references
  \<open>users\<close>, deleting in cascade), so the references of \<open>acknowledged_by\<close> and
  \<open>performed_by\<close> hold.
\<close>

datatype action_body = NoBody | Body "string option"






section \<open>Live feed (routes/websocket.ts, GET /metrics)\<close>

text \<open>
  A text frame either is not JSON, or decodes to \<open>null\<close> (reading its \<open>type\<close>
  throws), or decodes to a value whose \<open>type\<close>, \<open>token\<close>, \<open>resourceId\<close> and
  \<open>resourceType\<close> the handler reads. \<open>fastify.jwt.verify\<close> is the parameter
  \<open>verify\<close>: the user id of a good token, nothing when it throws.
\<close>

record ws_data =
  d_type :: "string option"
  d_token :: "string option"
  d_resourceId :: string
  d_resourceType :: string

datatype ws_frame = NotJson | JsonNull | JsonData ws_data

datatype ws_out =
    SendConnected
  | SendAuthSuccess uuid
  | SendAuthError
  | SendError string
  | SendSubscribed string string
  | SendUnsubscribed string string
  | SendPong timestamp
  | CloseSocket

record ws_conn =
  authenticated :: bool
  userId :: "uuid option"
  subscriptions :: "string list"
  streamReaders :: "string list"

definition ws_open :: "ws_conn \<times> ws_out list" where
  "ws_open =
     (\<lparr>authenticated = False, userId = None, subscriptions = [], streamReaders = []\<rparr>,
      [SendConnected])"

definition on_message ::
  "(string \<Rightarrow> uuid option) \<Rightarrow> timestamp \<Rightarrow> ws_conn \<Rightarrow> ws_frame \<Rightarrow> ws_conn \<times> ws_out list" where
  "on_message verify now c frame =
     (case frame of
        NotJson \<Rightarrow> (c, [SendError ''Invalid message format''])
      | JsonNull \<Rightarrow> (c, [SendError ''Invalid message format''])
      | JsonData d \<Rightarrow>
          (if d_type d = Some ''auth'' then
             (case (case d_token d of None \<Rightarrow> None | Some t \<Rightarrow> verify t) of
                Some uid \<Rightarrow> (c\<lparr>authenticated := True, userId := Some uid\<rparr>, [SendAuthSuccess uid])
              | None \<Rightarrow> (c, [SendAuthError, CloseSocket]))
           else if \<not> authenticated c then
             (c, [SendError ''Not authenticated'', CloseSocket])
           else if d_type d = Some ''subscribe'' then
             (let streamKey = ''metrics:'' @ d_resourceType d @ '':'' @ d_resourceId d
              in if streamKey \<notin> set (subscriptions c)
                 then (c\<lparr>subscriptions := subscriptions c @ [streamKey],
                         streamReaders := streamKey # removeAll streamKey (streamReaders c)\<rparr>,
                       [SendSubscribed (d_resourceId d) (d_resourceType d)])
                 else (c, []))
           else if d_type d = Some ''unsubscribe'' then
             (let streamKey = ''metrics:'' @ d_resourceType d @ '':'' @ d_resourceId d
              in if streamKey \<in> set (subscriptions c)
                 then (c\<lparr>subscriptions := remove1 streamKey (subscriptions c),
                         streamReaders := removeAll streamKey (streamReaders c)\<rparr>,
                       [SendUnsubscribed (d_resourceId d) (d_resourceType d)])
                 else (c, []))
           else if d_type d = Some ''ping'' then (c, [SendPong now])
           else (c, [])))"

text \<open>
  A connection's life: the frames arrive one after the other, each with the time of
  its arrival; the handler stays registered whatever it has sent.
\<close>

fun ws_run :: "(string \<Rightarrow> uuid option) \<Rightarrow> ws_conn \<Rightarrow> (timestamp \<times> ws_frame) list \<Rightarrow> ws_out list" where
  "ws_run verify c [] = []"
| "ws_run verify c ((now, frame) # rest) =
     (case on_message verify now c frame of
        (c', outs) \<Rightarrow> outs @ ws_run verify c' rest)"

section \<open>Sample data\<close>

text \<open>
  One account with one API key (\<open>bcrypt.compare\<close> stands for a fixed hash), a
  resource of each type, and an active policy on the server's CPU usage.
\<close>

definition example_cmp :: "string \<Rightarrow> string \<Rightarrow> bool" where
  "example_cmp k h = (h = ''hash-of-'' @ k)"

definition example_sys :: sys where
  "example_sys =
     \<lparr>api_keys = [\<lparr>ak_user_id = ''u1'', ak_key_hash = ''hash-of-k1'', ak_last_used = None,
                   ak_expires_at = None, ak_is_active = True\<rparr>],
      resources =
        [\<lparr>r_id = ''r1'', r_user_id = ''u1'', r_type = Server, r_name = ''web-01'',
          r_status = Unknown, r_last_seen_at = None\<rparr>,
         \<lparr>r_id = ''w1'', r_user_id = ''u1'', r_type = Website, r_name = ''shop'',
          r_status = Unknown, r_last_seen_at = None\<rparr>,
         \<lparr>r_id = ''n1'', r_user_id = ''u1'', r_type = Network, r_name = ''gateway'',
          r_status = Unknown, r_last_seen_at = None\<rparr>,
         \<lparr>r_id = ''d1'', r_user_id = ''u1'', r_type = Database, r_name = ''orders'',
          r_status = Unknown, r_last_seen_at = None\<rparr>],
      server_metrics = [], website_metrics = [], network_metrics = [],
      database_metrics = [], process_metrics = [], service_metrics = [],
      alert_policies =
        [\<lparr>ap_id = ''p1'', ap_user_id = ''u1'', ap_resource_id = ''r1'',
          ap_metric_name = ''cpuUsagePercent'', ap_condition = ''gt'', ap_threshold = 90,
          ap_duration_seconds = 60, ap_severity = SevCritical, ap_is_active = True\<rparr>],
      incidents = [], incident_history = [],
      redis_up = True, redis_noise = [''Redis error:'', ''Failed to connect to Redis:''],
      streams = [], error_log = []\<rparr>"


definition example_payload :: "rat \<Rightarrow> server_payload" where
  "example_payload cpu =
     \<lparr>sp_cpuUsagePercent = cpu, sp_memoryUsedMb = 2048, sp_memoryTotalMb = 8192,
      sp_memoryUsagePercent = 25, sp_diskUsedMb = 10000, sp_diskTotalMb = 100000,
      sp_diskUsagePercent = 10, sp_networkInBytes = 123456, sp_networkOutBytes = 654321,
      sp_processCount = 87, sp_loadAvg1m = Some (1 / 2), sp_loadAvg5m = Some (2 / 5),
      sp_loadAvg15m = None, sp_uptimeSeconds = 86400\<rparr>"

definition example_request :: "timestamp \<Rightarrow> rat \<Rightarrow> server_request" where
  "example_request t cpu =
     \<lparr>sq_api_key = Some ''k1'', sq_resourceId = ''r1'', sq_metrics = example_payload cpu,
      sq_processes = [\<lparr>pe_name = ''nginx'', pe_pid = 812, pe_cpuPercent = 3 / 2,
                       pe_memoryMb = 64, pe_status = ''running''\<rparr>],
      sq_services = [\<lparr>se_name = ''sshd'', se_status = ''running'', se_startupType = None\<rparr>],
      sq_timestamp = Some t\<rparr>"

definition example_website_request :: "timestamp \<Rightarrow> bool \<Rightarrow> website_request" where
  "example_website_request t up =
     \<lparr>wq_api_key = Some ''k1'', wq_resourceId = ''w1'',
      wq_metrics = \<lparr>wp_statusCode = (if up then 200 else 503), wp_responseTimeMs = 120,
                    wp_dnsTimeMs = Some 10, wp_connectTimeMs = Some 20, wp_tlsTimeMs = None,
                    wp_ttfbMs = None, wp_totalTimeMs = 150, wp_contentSizeBytes = Some 5120,
                    wp_isAvailable = up, wp_errorMessage = None, wp_location = None\<rparr>,
      wq_timestamp = Some t\<rparr>"

definition example_network_request :: "timestamp \<Rightarrow> bool \<Rightarrow> network_request" where
  "example_network_request t up =
     \<lparr>nq_api_key = Some ''k1'', nq_resourceId = ''n1'',
      nq_metrics = \<lparr>np_checkType = ''ping'', np_latencyMs = Some 12,
                    np_packetLossPercent = None, np_isAvailable = up,
                    np_hopCount = None, np_errorMessage = None\<rparr>,
      nq_timestamp = Some t\<rparr>"

definition example_user :: user where
  "example_user = \<lparr>u_id = ''u1'', u_role = None\<rparr>"

definition example_ping :: ws_data where
  "example_ping = \<lparr>d_type = Some ''ping'', d_token = None, d_resourceId = [], d_resourceType = []\<rparr>"

text \<open>The sample data with one server sample, taken at time 0.\<close>

definition example_stale :: sys where
  "example_stale = example_sys\<lparr>server_metrics := [server_row 0 ''r1'' (example_payload 50)]\<rparr>"

text \<open>The sample data with two server samples in the same minute, CPU usage 10 and 20.\<close>

definition example_two :: sys where
  "example_two =
     example_sys\<lparr>server_metrics :=
       [server_row 1000 ''r1'' (example_payload 10), server_row 2000 ''r1'' (example_payload 20)]\<rparr>"

section \<open>Notions used in the statements\<close>

text \<open>A percentage that is present and greater than a bound.\<close>

definition above :: "rat option \<Rightarrow> rat \<Rightarrow> bool" where
  "above v c = (case v of None \<Rightarrow> False | Some x \<Rightarrow> c < x)"

definition any_above :: "server_metric \<Rightarrow> rat \<Rightarrow> bool" where
  "any_above m c =
     (above (sm_cpu_usage_percent m) c \<or> above (sm_memory_usage_percent m) c \<or>
      above (sm_disk_usage_percent m) c)"

text \<open>The times of the samples stored for a resource, in the table of its type.\<close>

definition sample_times :: "sys \<Rightarrow> resource \<Rightarrow> timestamp list" where
  "sample_times s res =
     (case r_type res of
        Server \<Rightarrow> map sm_time (filter (\<lambda>m. sm_resource_id m = r_id res) (server_metrics s))
      | Website \<Rightarrow> map wm_time (filter (\<lambda>m. wm_resource_id m = r_id res) (website_metrics s))
      | Network \<Rightarrow> map nm_time (filter (\<lambda>m. nm_resource_id m = r_id res) (network_metrics s))
      | Database \<Rightarrow> map dm_time (filter (\<lambda>m. dm_resource_id m = r_id res) (database_metrics s)))"


text \<open>An \<open>auth\<close> frame whose token verifies, and the outputs of the live feed proper.\<close>

definition good_auth :: "(string \<Rightarrow> uuid option) \<Rightarrow> ws_frame \<Rightarrow> bool" where
  "good_auth verify frame =
     (case frame of
        JsonData d \<Rightarrow>
          d_type d = Some ''auth'' \<and>
          (case d_token d of None \<Rightarrow> False | Some t \<Rightarrow> verify t \<noteq> None)
      | _ \<Rightarrow> False)"

definition feed_out :: "ws_out \<Rightarrow> bool" where
  "feed_out out =
     (case out of
        SendPong _ \<Rightarrow> True
      | SendSubscribed _ _ \<Rightarrow> True
      | SendUnsubscribed _ _ \<Rightarrow> True
      | _ \<Rightarrow> False)"

subsection \<open>Frame lemmas\<close>

lemma validateApiKey_frame:
  "validateApiKey cmp now s k = (res, s') \<Longrightarrow> s' = s\<lparr>api_keys := api_keys s'\<rparr>"
  unfolding validateApiKey_def
  by (auto split: option.splits if_splits)

lemma check_api_key_frame:
  "check_api_key cmp now s hdr = (res, s') \<Longrightarrow> s' = s\<lparr>api_keys := api_keys s'\<rparr>"
  unfolding check_api_key_def
  by (auto split: option.splits if_splits prod.splits dest: validateApiKey_frame)

lemma check_api_key_fields:
  assumes "check_api_key cmp now s hdr = (res, s')"
  shows "resources s' = resources s"
    and "server_metrics s' = server_metrics s"
    and "website_metrics s' = website_metrics s"
    and "network_metrics s' = network_metrics s"
    and "database_metrics s' = database_metrics s"
    and "alert_policies s' = alert_policies s"
    and "incidents s' = incidents s"
    and "incident_history s' = incident_history s"
    and "redis_up s' = redis_up s"
    and "streams s' = streams s"
    and "error_log s' = error_log s"
    and "process_metrics s' = process_metrics s"
    and "service_metrics s' = service_metrics s"
    and "redis_noise s' = redis_noise s"
proof -
  have e: "s' = s\<lparr>api_keys := api_keys s'\<rparr>"
    by (rule check_api_key_frame [OF assms])
  show "resources s' = resources s" by (subst e) simp
  show "server_metrics s' = server_metrics s" by (subst e) simp
  show "website_metrics s' = website_metrics s" by (subst e) simp
  show "network_metrics s' = network_metrics s" by (subst e) simp
  show "database_metrics s' = database_metrics s" by (subst e) simp
  show "alert_policies s' = alert_policies s" by (subst e) simp
  show "incidents s' = incidents s" by (subst e) simp
  show "incident_history s' = incident_history s" by (subst e) simp
  show "redis_up s' = redis_up s" by (subst e) simp
  show "streams s' = streams s" by (subst e) simp
  show "error_log s' = error_log s" by (subst e) simp
  show "process_metrics s' = process_metrics s" by (subst e) simp
  show "service_metrics s' = service_metrics s" by (subst e) simp
  show "redis_noise s' = redis_noise s" by (subst e) simp
qed

lemma insert_process_metrics_ok:
  "list_all process_params_ok es \<Longrightarrow>
   insert_process_metrics s ts rid es =
     (True, s\<lparr>process_metrics := process_metrics s @ map (process_row ts rid) es\<rparr>)"
  by (induction es arbitrary: s) simp_all

lemma insert_process_metrics_True:
  "insert_process_metrics s ts rid es = (True, s') \<Longrightarrow> list_all process_params_ok es"
  by (induction es arbitrary: s) (simp_all split: if_splits)

lemma insert_process_metrics_frame:
  "insert_process_metrics s ts rid es = (ok, s') \<Longrightarrow>
   s' = s\<lparr>process_metrics := process_metrics s', error_log := error_log s'\<rparr>"
proof (induction es arbitrary: s)
  case Nil
  then show ?case by auto
next
  case (Cons e es)
  show ?case
  proof (cases "process_params_ok e")
    case False
    with Cons.prems show ?thesis by (auto simp add: query_failed_def)
  next
    case True
    with Cons.prems have
      "insert_process_metrics (s\<lparr>process_metrics := process_metrics s @ [process_row ts rid e]\<rparr>)
         ts rid es = (ok, s')" by simp
    from Cons.IH [OF this] show ?thesis by simp
  qed
qed

lemma insert_service_metrics_ok:
  "list_all service_params_ok es \<Longrightarrow>
   insert_service_metrics s ts rid es =
     (True, s\<lparr>service_metrics := service_metrics s @ map (service_row ts rid) es\<rparr>)"
  by (induction es arbitrary: s) simp_all

lemma insert_service_metrics_True:
  "insert_service_metrics s ts rid es = (True, s') \<Longrightarrow> list_all service_params_ok es"
  by (induction es arbitrary: s) (simp_all split: if_splits)

lemma insert_service_metrics_frame:
  "insert_service_metrics s ts rid es = (ok, s') \<Longrightarrow>
   s' = s\<lparr>service_metrics := service_metrics s', error_log := error_log s'\<rparr>"
proof (induction es arbitrary: s)
  case Nil
  then show ?case by auto
next
  case (Cons e es)
  show ?case
  proof (cases "service_params_ok e")
    case False
    with Cons.prems show ?thesis by (auto simp add: query_failed_def)
  next
    case True
    with Cons.prems have
      "insert_service_metrics (s\<lparr>service_metrics := service_metrics s @ [service_row ts rid e]\<rparr>)
         ts rid es = (ok, s')" by simp
    from Cons.IH [OF this] show ?thesis by simp
  qed
qed

lemma insert_process_metrics_keeps:
  "incidents (snd (insert_process_metrics s ts rid es)) = incidents s"
  "incident_history (snd (insert_process_metrics s ts rid es)) = incident_history s"
proof -
  obtain ok s' where e: "insert_process_metrics s ts rid es = (ok, s')"
    by (cases "insert_process_metrics s ts rid es")
  note f = insert_process_metrics_frame [OF e]
  show "incidents (snd (insert_process_metrics s ts rid es)) = incidents s"
    unfolding e snd_conv by (subst f) simp
  show "incident_history (snd (insert_process_metrics s ts rid es)) = incident_history s"
    unfolding e snd_conv by (subst f) simp
qed

lemma insert_service_metrics_keeps:
  "incidents (snd (insert_service_metrics s ts rid es)) = incidents s"
  "incident_history (snd (insert_service_metrics s ts rid es)) = incident_history s"
proof -
  obtain ok s' where e: "insert_service_metrics s ts rid es = (ok, s')"
    by (cases "insert_service_metrics s ts rid es")
  note f = insert_service_metrics_frame [OF e]
  show "incidents (snd (insert_service_metrics s ts rid es)) = incidents s"
    unfolding e snd_conv by (subst f) simp
  show "incident_history (snd (insert_service_metrics s ts rid es)) = incident_history s"
    unfolding e snd_conv by (subst f) simp
qed

lemma get_resource_status_cong:
  "server_metrics a = server_metrics b \<Longrightarrow> get_resource_status now a rid = get_resource_status now b rid"
  by (simp add: get_resource_status_def recent_metric_def)

lemma resource_owned_cong:
  "resources a = resources b \<Longrightarrow> resource_owned a rid usr ty = resource_owned b rid usr ty"
  by (simp add: resource_owned_def)

subsection \<open>What an ingestion request does to the state\<close>

lemma ingest_website_accepted:
  assumes ck: "check_api_key cmp now s (wq_api_key req) = (Inr usr, s1)"
    and own: "resource_owned s1 (wq_resourceId req) usr Website"
    and par: "website_params_ok (wq_metrics req)"
  shows "ingest_website cmp now s req =
     (let ts = (case wq_timestamp req of None \<Rightarrow> now | Some t \<Rightarrow> t);
          s3 = update_resource
                 (s1\<lparr>website_metrics :=
                       website_metrics s @ [website_row ts (wq_resourceId req) (wq_metrics req)]\<rparr>)
                 (wq_resourceId req) ts
                 (if wp_isAvailable (wq_metrics req) then Online else Offline)
      in if redis_up s
         then (Inr ts, s3\<lparr>streams := streams s @
                 [(''metrics:website:'' @ wq_resourceId req,
                   [(''status'', Num (wp_statusCode (wq_metrics req))),
                    (''responseTime'', Num (wp_responseTimeMs (wq_metrics req))),
                    (''available'', Bool (wp_isAvailable (wq_metrics req))),
                    (''timestamp'', Ts ts)])]\<rparr>)
         else (Inl (HttpError 500 ''Internal server error''),
               s3\<lparr>error_log := error_log s @ redis_noise s @ [''Website metrics ingestion error'']\<rparr>))"
  using own par check_api_key_fields [OF ck]
  by (simp add: ingest_website_def ck Let_def addToStream_def internal_error_def
      update_resource_def)

lemma ingest_website_Inr:
  assumes "ingest_website cmp now s req = (Inr ts, s')"
  shows "\<exists>usr s1. check_api_key cmp now s (wq_api_key req) = (Inr usr, s1) \<and>
           resource_owned s1 (wq_resourceId req) usr Website \<and>
           website_params_ok (wq_metrics req) \<and> redis_up s"
proof -
  obtain res s1 where ck: "check_api_key cmp now s (wq_api_key req) = (res, s1)"
    by (cases "check_api_key cmp now s (wq_api_key req)")
  show ?thesis
    using assms check_api_key_fields(9) [OF ck]
    by (auto simp add: ingest_website_def ck Let_def addToStream_def internal_error_def
        update_resource_def split: sum.splits if_splits)
qed

lemma ingest_network_accepted:
  assumes ck: "check_api_key cmp now s (nq_api_key req) = (Inr usr, s1)"
    and valid: "networkMetricsSchema_issues (nq_metrics req) = []"
    and own: "resource_owned s1 (nq_resourceId req) usr Network"
    and par: "network_params_ok (nq_metrics req)"
  shows "ingest_network cmp now s req =
     (let ts = (case nq_timestamp req of None \<Rightarrow> now | Some t \<Rightarrow> t);
          s3 = update_resource
                 (s1\<lparr>network_metrics :=
                       network_metrics s @ [network_row ts (nq_resourceId req) (nq_metrics req)]\<rparr>)
                 (nq_resourceId req) ts
                 (if np_isAvailable (nq_metrics req) then Online else Offline)
      in if redis_up s
         then (Inr ts, s3\<lparr>streams := streams s @
                 [(''metrics:network:'' @ nq_resourceId req,
                   [(''checkType'', Str (np_checkType (nq_metrics req))),
                    (''latency'', Num (case or_null (np_latencyMs (nq_metrics req)) of
                                         None \<Rightarrow> 0 | Some x \<Rightarrow> x)),
                    (''available'', Bool (np_isAvailable (nq_metrics req))),
                    (''timestamp'', Ts ts)])]\<rparr>)
         else (Inl (HttpError 500 ''Internal server error''),
               s3\<lparr>error_log := error_log s @ redis_noise s @ [''Network metrics ingestion error'']\<rparr>))"
  using own valid par check_api_key_fields [OF ck]
  by (simp add: ingest_network_def ck Let_def addToStream_def internal_error_def
      update_resource_def)

lemma ingest_network_Inr:
  assumes "ingest_network cmp now s req = (Inr ts, s')"
  shows "\<exists>usr s1. check_api_key cmp now s (nq_api_key req) = (Inr usr, s1) \<and>
           networkMetricsSchema_issues (nq_metrics req) = [] \<and>
           resource_owned s1 (nq_resourceId req) usr Network \<and>
           network_params_ok (nq_metrics req) \<and> redis_up s"
proof -
  obtain res s1 where ck: "check_api_key cmp now s (nq_api_key req) = (res, s1)"
    by (cases "check_api_key cmp now s (nq_api_key req)")
  show ?thesis
    using assms check_api_key_fields(9) [OF ck]
    by (auto simp add: ingest_network_def ck Let_def addToStream_def internal_error_def
        update_resource_def split: sum.splits if_splits)
qed

lemma ingest_server_accepted:
  assumes ck: "check_api_key cmp now s (sq_api_key req) = (Inr usr, s1)"
    and valid: "serverMetricsSchema_issues (sq_metrics req) = []"
    and own: "resource_owned s1 (sq_resourceId req) usr Server"
    and par: "server_params_ok (sq_metrics req)"
    and procs: "list_all process_params_ok (sq_processes req)"
    and svcs: "list_all service_params_ok (sq_services req)"
  shows "ingest_server cmp now s req =
     (let ts = (case sq_timestamp req of None \<Rightarrow> now | Some t \<Rightarrow> t);
          s2 = s1\<lparr>server_metrics :=
                    server_metrics s @ [server_row ts (sq_resourceId req) (sq_metrics req)],
                  process_metrics :=
                    process_metrics s @ map (process_row ts (sq_resourceId req)) (sq_processes req),
                  service_metrics :=
                    service_metrics s @ map (service_row ts (sq_resourceId req)) (sq_services req)\<rparr>;
          s3 = update_resource s2 (sq_resourceId req) ts
                 (get_resource_status now s2 (sq_resourceId req))
      in if redis_up s
         then (Inr ts, s3\<lparr>streams := streams s @
                 [(''metrics:server:'' @ sq_resourceId req,
                   [(''cpu'', Num (sp_cpuUsagePercent (sq_metrics req))),
                    (''memory'', Num (sp_memoryUsagePercent (sq_metrics req))),
                    (''disk'', Num (sp_diskUsagePercent (sq_metrics req))),
                    (''timestamp'', Ts ts)])]\<rparr>)
         else (Inl (HttpError 500 ''Internal server error''),
               s3\<lparr>error_log := error_log s @ redis_noise s @ [''Server metrics ingestion error'']\<rparr>))"
  using own valid par check_api_key_fields [OF ck]
  by (simp add: ingest_server_def ck Let_def addToStream_def internal_error_def
      update_resource_def insert_process_metrics_ok [OF procs] insert_service_metrics_ok [OF svcs])

lemma ingest_server_Inr:
  assumes "ingest_server cmp now s req = (Inr ts, s')"
  shows "\<exists>usr s1. check_api_key cmp now s (sq_api_key req) = (Inr usr, s1) \<and>
           serverMetricsSchema_issues (sq_metrics req) = [] \<and>
           resource_owned s1 (sq_resourceId req) usr Server \<and>
           server_params_ok (sq_metrics req) \<and>
           list_all process_params_ok (sq_processes req) \<and>
           list_all service_params_ok (sq_services req) \<and> redis_up s"
proof -
  let ?ts = "case sq_timestamp req of None \<Rightarrow> now | Some t \<Rightarrow> t"
  obtain res s1 where ck: "check_api_key cmp now s (sq_api_key req) = (res, s1)"
    by (cases "check_api_key cmp now s (sq_api_key req)")
  let ?s2 = "s1\<lparr>server_metrics :=
      server_metrics s1 @ [server_row ?ts (sq_resourceId req) (sq_metrics req)]\<rparr>"
  obtain okp sp where ip:
    "insert_process_metrics ?s2 ?ts (sq_resourceId req) (sq_processes req) = (okp, sp)"
    by (cases "insert_process_metrics ?s2 ?ts (sq_resourceId req) (sq_processes req)")
  obtain okv sv where iv:
    "insert_service_metrics sp ?ts (sq_resourceId req) (sq_services req) = (okv, sv)"
    by (cases "insert_service_metrics sp ?ts (sq_resourceId req) (sq_services req)")
  have up: "redis_up sv = redis_up s"
    by (subst insert_service_metrics_frame [OF iv], subst insert_process_metrics_frame [OF ip])
       (simp add: check_api_key_fields(9) [OF ck])
  from assms obtain usr where r: "res = Inr usr"
    by (cases res) (simp_all add: ingest_server_def ck)
  from assms have c: "serverMetricsSchema_issues (sq_metrics req) = []"
    "resource_owned s1 (sq_resourceId req) usr Server" "server_params_ok (sq_metrics req)"
    by (simp_all add: ingest_server_def ck r Let_def internal_error_def query_failed_def
        split: if_splits)
  from assms c have okp: "okp"
    by (cases okp) (simp_all add: ingest_server_def ck r Let_def ip internal_error_def)
  from assms c okp have okv: "okv"
    by (cases okv) (simp_all add: ingest_server_def ck r Let_def ip iv internal_error_def)
  from assms c okp okv have "redis_up sv"
    by (simp add: ingest_server_def ck r Let_def ip iv internal_error_def addToStream_def
        update_resource_def split: if_splits)
  with up have "redis_up s" by simp
  moreover from ip okp have "list_all process_params_ok (sq_processes req)"
    by (simp add: insert_process_metrics_True)
  moreover from iv okv have "list_all service_params_ok (sq_services req)"
    by (simp add: insert_service_metrics_True)
  ultimately show ?thesis using ck r c by blast
qed

lemma insert_process_metrics_fst:
  "fst (insert_process_metrics s ts rid es) = list_all process_params_ok es"
  by (induction es arbitrary: s) simp_all

lemma insert_service_metrics_fst:
  "fst (insert_service_metrics s ts rid es) = list_all service_params_ok es"
  by (induction es arbitrary: s) simp_all

lemma ingest_server_fst:
  assumes ck: "check_api_key cmp now s (sq_api_key req) = (res, s1)"
  shows "fst (ingest_server cmp now s req) =
     (case res of
        Inl e \<Rightarrow> Inl e
      | Inr usr \<Rightarrow>
          if serverMetricsSchema_issues (sq_metrics req) \<noteq> []
          then Inl (ValidationError (serverMetricsSchema_issues (sq_metrics req)))
          else if \<not> resource_owned s1 (sq_resourceId req) usr Server
          then Inl (HttpError 404 ''Resource not found'')
          else if server_params_ok (sq_metrics req) \<and>
                  list_all process_params_ok (sq_processes req) \<and>
                  list_all service_params_ok (sq_services req) \<and> redis_up s1
          then Inr (case sq_timestamp req of None \<Rightarrow> now | Some t \<Rightarrow> t)
          else Inl (HttpError 500 ''Internal server error''))"
proof -
  let ?ts = "case sq_timestamp req of None \<Rightarrow> now | Some t \<Rightarrow> t"
  let ?s2 = "s1\<lparr>server_metrics :=
      server_metrics s1 @ [server_row ?ts (sq_resourceId req) (sq_metrics req)]\<rparr>"
  obtain okp sp where ip:
    "insert_process_metrics ?s2 ?ts (sq_resourceId req) (sq_processes req) = (okp, sp)"
    by (cases "insert_process_metrics ?s2 ?ts (sq_resourceId req) (sq_processes req)")
  obtain okv sv where iv:
    "insert_service_metrics sp ?ts (sq_resourceId req) (sq_services req) = (okv, sv)"
    by (cases "insert_service_metrics sp ?ts (sq_resourceId req) (sq_services req)")
  have up: "redis_up sv = redis_up s1"
    by (subst insert_service_metrics_frame [OF iv], subst insert_process_metrics_frame [OF ip])
       simp
  have okp: "okp = list_all process_params_ok (sq_processes req)"
    using insert_process_metrics_fst [of ?s2 ?ts "sq_resourceId req" "sq_processes req"]
    by (simp only: ip fst_conv)
  have okv: "okv = list_all service_params_ok (sq_services req)"
    using insert_service_metrics_fst [of sp ?ts "sq_resourceId req" "sq_services req"]
    by (simp only: iv fst_conv)
  show ?thesis
    using up okp okv
    by (simp add: ingest_server_def ck Let_def ip iv internal_error_def addToStream_def
        update_resource_def split: sum.splits bool.splits)
qed

lemma ingest_server_keeps:
  "incidents (snd (ingest_server cmp now s req)) = incidents s"
  "incident_history (snd (ingest_server cmp now s req)) = incident_history s"
proof -
  let ?ts = "case sq_timestamp req of None \<Rightarrow> now | Some t \<Rightarrow> t"
  obtain res s1 where ck: "check_api_key cmp now s (sq_api_key req) = (res, s1)"
    by (cases "check_api_key cmp now s (sq_api_key req)")
  let ?s2 = "s1\<lparr>server_metrics :=
      server_metrics s1 @ [server_row ?ts (sq_resourceId req) (sq_metrics req)]\<rparr>"
  obtain okp sp where ip:
    "insert_process_metrics ?s2 ?ts (sq_resourceId req) (sq_processes req) = (okp, sp)"
    by (cases "insert_process_metrics ?s2 ?ts (sq_resourceId req) (sq_processes req)")
  obtain okv sv where iv:
    "insert_service_metrics sp ?ts (sq_resourceId req) (sq_services req) = (okv, sv)"
    by (cases "insert_service_metrics sp ?ts (sq_resourceId req) (sq_services req)")
  note fr = check_api_key_fields [OF ck]
  have p: "incidents sp = incidents s" "incident_history sp = incident_history s"
    by (subst insert_process_metrics_frame [OF ip], simp add: fr)+
  have v: "incidents sv = incidents s" "incident_history sv = incident_history s"
    by (subst insert_service_metrics_frame [OF iv], simp add: p)+
  show "incidents (snd (ingest_server cmp now s req)) = incidents s"
    using fr(7,8) p v
    by (simp add: ingest_server_def ck Let_def ip iv addToStream_def internal_error_def
        query_failed_def update_resource_def split: sum.splits bool.splits)
  show "incident_history (snd (ingest_server cmp now s req)) = incident_history s"
    using fr(7,8) p v
    by (simp add: ingest_server_def ck Let_def ip iv addToStream_def internal_error_def
        query_failed_def update_resource_def split: sum.splits bool.splits)
qed

lemma ingest_website_keeps:
  "incidents (snd (ingest_website cmp now s req)) = incidents s"
  "incident_history (snd (ingest_website cmp now s req)) = incident_history s"
proof -
  obtain res s1 where ck: "check_api_key cmp now s (wq_api_key req) = (res, s1)"
    by (cases "check_api_key cmp now s (wq_api_key req)")
  note fr = check_api_key_fields [OF ck]
  show "incidents (snd (ingest_website cmp now s req)) = incidents s"
    using fr by (simp add: ingest_website_def ck Let_def addToStream_def internal_error_def
        query_failed_def update_resource_def split: sum.splits)
  show "incident_history (snd (ingest_website cmp now s req)) = incident_history s"
    using fr by (simp add: ingest_website_def ck Let_def addToStream_def internal_error_def
        query_failed_def update_resource_def split: sum.splits)
qed

lemma ingest_network_keeps:
  "incidents (snd (ingest_network cmp now s req)) = incidents s"
  "incident_history (snd (ingest_network cmp now s req)) = incident_history s"
proof -
  obtain res s1 where ck: "check_api_key cmp now s (nq_api_key req) = (res, s1)"
    by (cases "check_api_key cmp now s (nq_api_key req)")
  note fr = check_api_key_fields [OF ck]
  show "incidents (snd (ingest_network cmp now s req)) = incidents s"
    using fr by (simp add: ingest_network_def ck Let_def addToStream_def internal_error_def
        query_failed_def update_resource_def split: sum.splits)
  show "incident_history (snd (ingest_network cmp now s req)) = incident_history s"
    using fr by (simp add: ingest_network_def ck Let_def addToStream_def internal_error_def
        query_failed_def update_resource_def split: sum.splits)
qed

lemma ingest_batch_keeps:
  "incidents (snd (ingest_batch cmp now s hdr body)) = incidents s"
  "incident_history (snd (ingest_batch cmp now s hdr body)) = incident_history s"
proof -
  obtain res s1 where ck: "check_api_key cmp now s hdr = (res, s1)"
    by (cases "check_api_key cmp now s hdr")
  note fr = check_api_key_fields [OF ck]
  show "incidents (snd (ingest_batch cmp now s hdr body)) = incidents s"
    using fr by (simp add: ingest_batch_def ck internal_error_def
        split: sum.splits batch_body.splits prod.splits)
  show "incident_history (snd (ingest_batch cmp now s hdr body)) = incident_history s"
    using fr by (simp add: ingest_batch_def ck internal_error_def
        split: sum.splits batch_body.splits prod.splits)
qed

lemma ingest_server_result:
  assumes "ingest_server cmp now s req = (Inr ts, s')"
  shows "ts = (case sq_timestamp req of None \<Rightarrow> now | Some t \<Rightarrow> t)"
    and "server_metrics s' = server_metrics s @ [server_row ts (sq_resourceId req) (sq_metrics req)]"
    and "resources s' =
           map (\<lambda>r. if r_id r = sq_resourceId req
                     then r\<lparr>r_status := get_resource_status now s' (sq_resourceId req),
                            r_last_seen_at := Some ts\<rparr>
                     else r) (resources s)"
proof -
  from ingest_server_Inr [OF assms] obtain usr s1 where
    ck: "check_api_key cmp now s (sq_api_key req) = (Inr usr, s1)"
    and ok: "serverMetricsSchema_issues (sq_metrics req) = []"
      "resource_owned s1 (sq_resourceId req) usr Server"
      "server_params_ok (sq_metrics req)"
      "list_all process_params_ok (sq_processes req)"
      "list_all service_params_ok (sq_services req)"
    and up: "redis_up s"
    by blast
  note fr = check_api_key_fields [OF ck]
  note eq = ingest_server_accepted [OF ck ok]
  from assms eq up show ts: "ts = (case sq_timestamp req of None \<Rightarrow> now | Some t \<Rightarrow> t)"
    by (simp add: Let_def)
  from assms eq up show sm: "server_metrics s' =
      server_metrics s @ [server_row ts (sq_resourceId req) (sq_metrics req)]"
    by (auto simp add: Let_def update_resource_def)
  have "get_resource_status now s' (sq_resourceId req) =
      get_resource_status now
        (s1\<lparr>server_metrics := server_metrics s @ [server_row ts (sq_resourceId req) (sq_metrics req)],
            process_metrics :=
              process_metrics s @ map (process_row ts (sq_resourceId req)) (sq_processes req),
            service_metrics :=
              service_metrics s @ map (service_row ts (sq_resourceId req)) (sq_services req)\<rparr>)
        (sq_resourceId req)"
    by (rule get_resource_status_cong) (simp add: sm)
  with assms eq up ts show "resources s' =
           map (\<lambda>r. if r_id r = sq_resourceId req
                     then r\<lparr>r_status := get_resource_status now s' (sq_resourceId req),
                            r_last_seen_at := Some ts\<rparr>
                     else r) (resources s)"
    by (auto simp add: Let_def update_resource_def fr)
qed

lemma ingest_website_result:
  assumes "ingest_website cmp now s req = (Inr ts, s')"
  shows "ts = (case wq_timestamp req of None \<Rightarrow> now | Some t \<Rightarrow> t)"
    and "website_metrics s' = website_metrics s @ [website_row ts (wq_resourceId req) (wq_metrics req)]"
    and "resources s' =
           map (\<lambda>r. if r_id r = wq_resourceId req
                     then r\<lparr>r_status := (if wp_isAvailable (wq_metrics req) then Online else Offline),
                            r_last_seen_at := Some ts\<rparr>
                     else r) (resources s)"
proof -
  from ingest_website_Inr [OF assms] obtain usr s1 where
    ck: "check_api_key cmp now s (wq_api_key req) = (Inr usr, s1)"
    and ok: "resource_owned s1 (wq_resourceId req) usr Website"
      "website_params_ok (wq_metrics req)"
    and up: "redis_up s"
    by blast
  note fr = check_api_key_fields [OF ck]
  note eq = ingest_website_accepted [OF ck ok]
  from assms eq up show ts: "ts = (case wq_timestamp req of None \<Rightarrow> now | Some t \<Rightarrow> t)"
    by (simp add: Let_def)
  from assms eq up show "website_metrics s' =
      website_metrics s @ [website_row ts (wq_resourceId req) (wq_metrics req)]"
    by (auto simp add: Let_def update_resource_def)
  from assms eq up ts show "resources s' =
           map (\<lambda>r. if r_id r = wq_resourceId req
                     then r\<lparr>r_status := (if wp_isAvailable (wq_metrics req) then Online else Offline),
                            r_last_seen_at := Some ts\<rparr>
                     else r) (resources s)"
    by (auto simp add: Let_def update_resource_def fr)
qed

lemma ingest_network_result:
  assumes "ingest_network cmp now s req = (Inr ts, s')"
  shows "ts = (case nq_timestamp req of None \<Rightarrow> now | Some t \<Rightarrow> t)"
    and "network_metrics s' = network_metrics s @ [network_row ts (nq_resourceId req) (nq_metrics req)]"
    and "resources s' =
           map (\<lambda>r. if r_id r = nq_resourceId req
                     then r\<lparr>r_status := (if np_isAvailable (nq_metrics req) then Online else Offline),
                            r_last_seen_at := Some ts\<rparr>
                     else r) (resources s)"
proof -
  from ingest_network_Inr [OF assms] obtain usr s1 where
    ck: "check_api_key cmp now s (nq_api_key req) = (Inr usr, s1)"
    and ok: "networkMetricsSchema_issues (nq_metrics req) = []"
      "resource_owned s1 (nq_resourceId req) usr Network"
      "network_params_ok (nq_metrics req)"
    and up: "redis_up s"
    by blast
  note fr = check_api_key_fields [OF ck]
  note eq = ingest_network_accepted [OF ck ok]
  from assms eq up show ts: "ts = (case nq_timestamp req of None \<Rightarrow> now | Some t \<Rightarrow> t)"
    by (simp add: Let_def)
  from assms eq up show "network_metrics s' =
      network_metrics s @ [network_row ts (nq_resourceId req) (nq_metrics req)]"
    by (auto simp add: Let_def update_resource_def)
  from assms eq up ts show "resources s' =
           map (\<lambda>r. if r_id r = nq_resourceId req
                     then r\<lparr>r_status := (if np_isAvailable (nq_metrics req) then Online else Offline),
                            r_last_seen_at := Some ts\<rparr>
                     else r) (resources s)"
    by (auto simp add: Let_def update_resource_def fr)
qed

subsection \<open>The newest row\<close>

lemma latest_by_None: "latest_by t xs = None \<longleftrightarrow> xs = []"
  by (induction xs) (auto split: option.splits)

lemma latest_by_mem: "latest_by t xs = Some y \<Longrightarrow> y \<in> set xs"
  by (induction xs arbitrary: y) (auto split: option.splits if_splits)

lemma latest_by_greatest: "latest_by t xs = Some y \<Longrightarrow> x \<in> set xs \<Longrightarrow> t x \<le> t y"
proof (induction xs arbitrary: y)
  case Nil
  then show ?case by simp
next
  case (Cons a xs)
  show ?case
  proof (cases "latest_by t xs")
    case None
    then have "xs = []" by (simp add: latest_by_None)
    with Cons.prems None show ?thesis by simp
  next
    case (Some z)
    with Cons.prems Cons.IH [OF Some] show ?thesis
      by (auto split: if_splits)
  qed
qed

lemma latest_by_unique_max:
  assumes "x \<in> set xs" and "\<And>y. y \<in> set xs \<Longrightarrow> y \<noteq> x \<Longrightarrow> t y < t x"
  shows "latest_by t xs = Some x"
proof -
  from assms(1) have "latest_by t xs \<noteq> None" by (auto simp add: latest_by_None)
  then obtain y where y: "latest_by t xs = Some y" by blast
  have "y \<in> set xs" by (rule latest_by_mem [OF y])
  moreover have "t x \<le> t y" by (rule latest_by_greatest [OF y assms(1)])
  ultimately have "y = x" using assms(2) [of y] by force
  with y show ?thesis by simp
qed

subsection \<open>Grouping by bucket\<close>

lemma bucket_keys_set: "set (bucket_keys w ts) = time_bucket w ` set ts"
  by (simp add: bucket_keys_def)

lemma bucket_keys_ascending: "sorted_wrt (<) (bucket_keys w ts)"
  by (simp add: bucket_keys_def strict_sorted_iff)

lemma bucket_keys_same_set: "set ts = set ts' \<Longrightarrow> bucket_keys w ts = bucket_keys w ts'"
proof -
  assume "set ts = set ts'"
  then have "set (map (time_bucket w) ts) = set (map (time_bucket w) ts')" by simp
  then have "sorted_list_of_set (set (map (time_bucket w) ts)) =
             sorted_list_of_set (set (map (time_bucket w) ts'))" by simp
  then show ?thesis
    by (simp only: bucket_keys_def sorted_list_of_set_sort_remdups)
qed

lemma time_bucket_bounds:
  assumes "0 < w"
  shows "time_bucket w t \<le> t" and "t < time_bucket w t + w"
proof -
  have "0 \<le> (t - 946857600000) mod w" and "(t - 946857600000) mod w < w"
    using assms by simp_all
  then show "time_bucket w t \<le> t" and "t < time_bucket w t + w"
    by (simp_all add: time_bucket_def)
qed

subsection \<open>Aggregates\<close>

lemma non_null_set: "set (non_null vs) = {v. Some v \<in> set vs}"
  by (induction vs rule: non_null.induct) auto

lemma non_null_append: "non_null (xs @ ys) = non_null xs @ non_null ys"
  by (induction xs rule: non_null.induct) auto

lemma fold_max_Max: "fold max ys (y::rat) = Max (set (y # ys))"
  by (rule Max.set_eq_fold [symmetric])

lemma fold_min_Min: "fold min ys (y::rat) = Min (set (y # ys))"
  by (rule Min.set_eq_fold [symmetric])

lemma sql_max_eq:
  "sql_max vs = (if non_null vs = [] then None else Some (Max (set (non_null vs))))"
proof (cases "non_null vs")
  case Nil
  then show ?thesis by (simp add: sql_max_def)
next
  case (Cons y ys)
  then show ?thesis by (simp only: sql_max_def fold_max_Max list.case list.distinct if_False)
qed

lemma sql_min_eq:
  "sql_min vs = (if non_null vs = [] then None else Some (Min (set (non_null vs))))"
proof (cases "non_null vs")
  case Nil
  then show ?thesis by (simp add: sql_min_def)
next
  case (Cons y ys)
  then show ?thesis by (simp only: sql_min_def fold_min_Min list.case list.distinct if_False)
qed

lemma sql_max_same_set: "set xs = set ys \<Longrightarrow> sql_max xs = sql_max ys"
proof -
  assume "set xs = set ys"
  then have "set (non_null xs) = set (non_null ys)" by (simp add: non_null_set)
  moreover from this have "non_null xs = [] \<longleftrightarrow> non_null ys = []"
    by (metis set_empty)
  ultimately show ?thesis by (simp add: sql_max_eq)
qed

lemma sql_min_same_set: "set xs = set ys \<Longrightarrow> sql_min xs = sql_min ys"
proof -
  assume "set xs = set ys"
  then have "set (non_null xs) = set (non_null ys)" by (simp add: non_null_set)
  moreover from this have "non_null xs = [] \<longleftrightarrow> non_null ys = []"
    by (metis set_empty)
  ultimately show ?thesis by (simp add: sql_min_eq)
qed

lemma non_null_constant:
  "\<forall>x \<in> set xs. x = Some r \<Longrightarrow> non_null xs = replicate (length xs) r"
  by (induction xs rule: non_null.induct) auto

lemma non_null_all_null:
  "\<forall>x \<in> set xs. x = None \<Longrightarrow> non_null xs = []"
  by (induction xs rule: non_null.induct) auto

lemma sum_list_replicate_rat: "sum_list (replicate n (r::rat)) = of_nat n * r"
  by (induction n) (simp_all add: algebra_simps)

lemma sql_avg_constant:
  assumes "xs \<noteq> []" and "\<forall>x \<in> set xs. x = v"
  shows "sql_avg (xs @ [v]) = sql_avg xs"
proof (cases v)
  case None
  with assms(2) have "non_null xs = []" by (simp add: non_null_all_null)
  with None show ?thesis by (simp add: sql_avg_def non_null_append)
next
  case (Some r)
  with assms(2) have nn: "non_null xs = replicate (length xs) r"
    by (simp add: non_null_constant)
  obtain n where n: "length xs = Suc n" using assms(1) by (cases xs) auto
  have a: "sql_avg xs = Some r"
    by (simp add: sql_avg_def nn n sum_list_replicate_rat field_simps)
  have "non_null (xs @ [v]) = replicate (Suc (length xs)) r"
    using Some nn by (simp add: non_null_append replicate_append_same)
  then have b: "sql_avg (xs @ [v]) = Some r"
    by (simp add: sql_avg_def n sum_list_replicate_rat field_simps)
  from a b show ?thesis by simp
qed

text \<open>A row stored again does not change the buckets, and changes a bucket's
  aggregate only as far as the aggregate tells a list from the same list with one
  of its members repeated.\<close>

lemma group_map_dup:
  fixes key :: "'r \<Rightarrow> int"
  assumes x: "x \<in> set rows"
    and F: "\<And>g. x \<in> set g \<Longrightarrow> set g \<subseteq> set rows \<Longrightarrow> \<forall>m\<in>set g. key m = key x \<Longrightarrow>
              F (key x) (g @ [x]) = F (key x) g"
  shows "map (\<lambda>b. F b (filter (\<lambda>m. key m = b) (rows @ [x]))) (sort (remdups (map key (rows @ [x])))) =
         map (\<lambda>b. F b (filter (\<lambda>m. key m = b) rows)) (sort (remdups (map key rows)))"
proof -
  have "set (map key (rows @ [x])) = set (map key rows)" using x by auto
  then have "sorted_list_of_set (set (map key (rows @ [x]))) = sorted_list_of_set (set (map key rows))"
    by simp
  then have keys: "sort (remdups (map key (rows @ [x]))) = sort (remdups (map key rows))"
    by (simp only: sorted_list_of_set_sort_remdups)
  have "F b (filter (\<lambda>m. key m = b) (rows @ [x])) = F b (filter (\<lambda>m. key m = b) rows)" for b
  proof (cases "key x = b")
    case True
    have "F (key x) (filter (\<lambda>m. key m = key x) rows @ [x]) = F (key x) (filter (\<lambda>m. key m = key x) rows)"
      by (rule F) (use x in auto)
    with True show ?thesis by auto
  next
    case False
    then show ?thesis by simp
  qed
  with keys show ?thesis by simp
qed

subsection \<open>Rows changed by an UPDATE\<close>

lemma updated_rows:
  assumes "y \<in> set (map (\<lambda>x. if key x = k then f x else x) xs)" and "key y = k"
    and "\<And>x. key x = k \<Longrightarrow> Q (f x)"
  shows "Q y"
proof -
  from assms(1) have "y \<in> (\<lambda>x. if key x = k then f x else x) ` set xs"
    by (simp only: set_map)
  then obtain x where x: "y = (if key x = k then f x else x)"
    by (rule imageE)
  show ?thesis
  proof (cases "key x = k")
    case True
    with x assms(3) show ?thesis by simp
  next
    case False
    with x assms(2) show ?thesis by simp
  qed
qed

subsection \<open>The live feed before authentication\<close>

lemma on_message_unauthenticated:
  assumes "\<not> authenticated c" and "\<not> good_auth verify frame"
  shows "fst (on_message verify now c frame) = c"
    and "\<forall>out \<in> set (snd (on_message verify now c frame)). \<not> feed_out out"
  using assms
  by (auto simp add: on_message_def good_auth_def feed_out_def split: ws_frame.splits option.splits)

lemma ws_run_unauthenticated:
  assumes "\<not> authenticated c" and "\<forall>f \<in> set frames. \<not> good_auth verify (snd f)"
  shows "\<forall>out \<in> set (ws_run verify c frames). \<not> feed_out out"
  using assms
proof (induction frames arbitrary: c)
  case Nil
  then show ?case by simp
next
  case (Cons f frames)
  obtain now frame where f: "f = (now, frame)" by (cases f)
  obtain c' outs where om: "on_message verify now c frame = (c', outs)"
    by (cases "on_message verify now c frame")
  from Cons.prems f have ng: "\<not> good_auth verify frame" by simp
  from on_message_unauthenticated [OF Cons.prems(1) ng, of now] om
  have c': "c' = c" and outs: "\<forall>out \<in> set outs. \<not> feed_out out" by simp_all
  have "\<forall>out \<in> set (ws_run verify c' frames). \<not> feed_out out"
    using Cons.IH [of c'] Cons.prems c' by simp
  with outs show ?case by (auto simp add: f om)
qed

subsection \<open>The batch loop\<close>


subsection \<open>Status derivation\<close>

lemma derive_status_bands:
  "derive_status m =
     (if any_above m 90 then Critical else if any_above m 75 then Warning else Online)"
  by (simp add: derive_status_def any_above_def above_def sql_gt_def sql_or_def sql_true_def
      split: option.splits)

lemma recent_metric_None:
  "recent_metric now s rid = None \<longleftrightarrow>
     \<not> list_ex (\<lambda>m. sm_resource_id m = rid \<and> now - freshness_horizon < sm_time m) (server_metrics s)"
  by (simp add: recent_metric_def latest_by_None filter_empty_conv list_ex_iff)

lemma recent_metric_Some:
  assumes "recent_metric now s rid = Some m"
  shows "m \<in> set (server_metrics s)" and "sm_resource_id m = rid"
    and "now - freshness_horizon < sm_time m"
    and "\<And>m'. m' \<in> set (server_metrics s) \<Longrightarrow> sm_resource_id m' = rid \<Longrightarrow>
           now - freshness_horizon < sm_time m' \<Longrightarrow> sm_time m' \<le> sm_time m"
proof -
  let ?rows = "filter (\<lambda>m. sm_resource_id m = rid \<and> now - freshness_horizon < sm_time m)
                 (server_metrics s)"
  from assms have l: "latest_by sm_time ?rows = Some m" by (simp add: recent_metric_def)
  from latest_by_mem [OF l]
  show "m \<in> set (server_metrics s)" and "sm_resource_id m = rid"
    and "now - freshness_horizon < sm_time m" by simp_all
  fix m' assume "m' \<in> set (server_metrics s)" "sm_resource_id m' = rid"
    "now - freshness_horizon < sm_time m'"
  then have "m' \<in> set ?rows" by simp
  from latest_by_greatest [OF l this] show "sm_time m' \<le> sm_time m" .
qed

subsection \<open>The loop of the latest-metrics route\<close>

lemma latest_loop_other:
  "k \<notin> r_id ` set rs \<Longrightarrow> latest_loop s rs m0 k = m0 k"
  by (induction rs arbitrary: m0) (auto split: option.splits)

lemma latest_loop_lookup:
  assumes "distinct (map r_id rs)" and "res \<in> set rs"
  shows "latest_loop s rs m0 (r_id res) =
           (case latest_of s res of None \<Rightarrow> m0 (r_id res) | Some e \<Rightarrow> Some e)"
  using assms
proof (induction rs arbitrary: m0)
  case Nil
  then show ?case by simp
next
  case (Cons a rs)
  show ?case
  proof (cases "res = a")
    case True
    from Cons.prems(1) have "r_id a \<notin> r_id ` set rs" by simp
    then show ?thesis
      using True by (simp add: latest_loop_other split: option.splits)
  next
    case False
    with Cons.prems have mem: "res \<in> set rs" and d: "distinct (map r_id rs)"
      and ne: "r_id a \<noteq> r_id res" by auto
    show ?thesis
      using Cons.IH [OF d mem] ne by (simp split: option.splits)
  qed
qed

lemma latest_of_None: "latest_of s res = None \<longleftrightarrow> sample_times s res = []"
  by (cases "r_type res") (simp_all add: latest_of_def sample_times_def latest_by_None)

lemma latest_of_Some:
  assumes "latest_of s res = Some e"
  shows "le_time e \<in> set (sample_times s res)"
    and "\<And>t. t \<in> set (sample_times s res) \<Longrightarrow> t \<le> le_time e"
proof -
  have "le_time e \<in> set (sample_times s res) \<and> (\<forall>t \<in> set (sample_times s res). t \<le> le_time e)"
  proof (cases "r_type res")
    case Server
    let ?rows = "filter (\<lambda>m. sm_resource_id m = r_id res) (server_metrics s)"
    from assms Server obtain row where l: "latest_by sm_time ?rows = Some row"
      and e: "e = server_entry res row" by (auto simp add: latest_of_def)
    have t: "le_time e = sm_time row" by (simp add: e server_entry_def)
    from latest_by_mem [OF l] latest_by_greatest [OF l] show ?thesis
      unfolding t by (auto simp add: sample_times_def Server)
  next
    case Website
    let ?rows = "filter (\<lambda>m. wm_resource_id m = r_id res) (website_metrics s)"
    from assms Website obtain row where l: "latest_by wm_time ?rows = Some row"
      and e: "e = other_entry res (wm_time row)" by (auto simp add: latest_of_def)
    have t: "le_time e = wm_time row" by (simp add: e other_entry_def)
    from latest_by_mem [OF l] latest_by_greatest [OF l] show ?thesis
      unfolding t by (auto simp add: sample_times_def Website)
  next
    case Network
    let ?rows = "filter (\<lambda>m. nm_resource_id m = r_id res) (network_metrics s)"
    from assms Network obtain row where l: "latest_by nm_time ?rows = Some row"
      and e: "e = other_entry res (nm_time row)" by (auto simp add: latest_of_def)
    have t: "le_time e = nm_time row" by (simp add: e other_entry_def)
    from latest_by_mem [OF l] latest_by_greatest [OF l] show ?thesis
      unfolding t by (auto simp add: sample_times_def Network)
  next
    case Database
    let ?rows = "filter (\<lambda>m. dm_resource_id m = r_id res) (database_metrics s)"
    from assms Database obtain row where l: "latest_by dm_time ?rows = Some row"
      and e: "e = other_entry res (dm_time row)" by (auto simp add: latest_of_def)
    have t: "le_time e = dm_time row" by (simp add: e other_entry_def)
    from latest_by_mem [OF l] latest_by_greatest [OF l] show ?thesis
      unfolding t by (auto simp add: sample_times_def Database)
  qed
  then show "le_time e \<in> set (sample_times s res)"
    and "\<And>t. t \<in> set (sample_times s res) \<Longrightarrow> t \<le> le_time e" by blast+
qed

subsection \<open>Range queries\<close>

lemma server_range_buckets:
  "map sb_bucket (server_range w rid st en tbl) =
     bucket_keys w (map sm_time (filter (\<lambda>m. sm_resource_id m = rid \<and> st \<le> sm_time m \<and> sm_time m \<le> en) tbl))"
  by (simp add: server_range_def Let_def o_def)

lemma website_range_buckets:
  "map wb_bucket (website_range w rid st en tbl) =
     bucket_keys w (map wm_time (filter (\<lambda>m. wm_resource_id m = rid \<and> st \<le> wm_time m \<and> wm_time m \<le> en) tbl))"
  by (simp add: website_range_def Let_def o_def)

lemma network_range_buckets:
  "map nb_bucket (network_range w rid st en tbl) =
     bucket_keys w (map nm_time (filter (\<lambda>m. nm_resource_id m = rid \<and> st \<le> nm_time m \<and> nm_time m \<le> en) tbl))"
  by (simp add: network_range_def Let_def o_def)

lemma bucket_keys_range:
  assumes "\<forall>t \<in> set ts. st \<le> t \<and> t \<le> en"
  shows "sorted_wrt (<) (bucket_keys w ts) \<and>
         (0 < w \<longrightarrow> b \<in> set (bucket_keys w ts) \<longrightarrow> b \<le> en \<and> st < b + w) \<and>
         (en < st \<longrightarrow> bucket_keys w ts = [])"
proof (intro conjI impI)
  show "sorted_wrt (<) (bucket_keys w ts)" by (rule bucket_keys_ascending)
next
  assume w: "0 < w" and "b \<in> set (bucket_keys w ts)"
  then obtain t where t: "t \<in> set ts" and b: "b = time_bucket w t"
    by (auto simp add: bucket_keys_set)
  from time_bucket_bounds [OF w, of t] assms t b
  show "b \<le> en" and "st < b + w" by auto
next
  assume "en < st"
  with assms have "ts = []" by (cases ts) auto
  then show "bucket_keys w ts = []" by (simp add: bucket_keys_def)
qed

text \<open>
  The range query for a server, website or network resource: the buckets come in
  strictly ascending order, each holds a sample of the resource taken within
  [startTime, endTime], and nothing is returned when startTime is after endTime.
\<close>

lemma get_metrics_range:
  assumes "get_metrics usr s rid st en w = Inr d"
  shows "sorted_wrt (<) (bucket_times d)"
    and "0 < w \<Longrightarrow> b \<in> set (bucket_times d) \<Longrightarrow> b \<le> en \<and> st < b + w"
    and "en < st \<Longrightarrow> bucket_times d = []"
proof -
  from assms obtain res where f: "find (visible_resource usr rid) (resources s) = Some res"
    by (auto simp add: get_metrics_def split: option.splits)
  have all: "sorted_wrt (<) (bucket_times d) \<and>
      (0 < w \<longrightarrow> b \<in> set (bucket_times d) \<longrightarrow> b \<le> en \<and> st < b + w) \<and>
      (en < st \<longrightarrow> bucket_times d = [])"
  proof (cases "r_type res")
    case Server
    with assms f have d: "d = ServerData (server_range w (r_id res) st en (server_metrics s))"
      by (auto simp add: get_metrics_def)
    show ?thesis
      unfolding d bucket_times.simps server_range_buckets
      by (rule bucket_keys_range) simp
  next
    case Website
    with assms f have d: "d = WebsiteData (website_range w (r_id res) st en (website_metrics s))"
      by (auto simp add: get_metrics_def)
    show ?thesis
      unfolding d bucket_times.simps website_range_buckets
      by (rule bucket_keys_range) simp
  next
    case Network
    with assms f have d: "d = NetworkData (network_range w (r_id res) st en (network_metrics s))"
      by (auto simp add: get_metrics_def)
    show ?thesis
      unfolding d bucket_times.simps network_range_buckets
      by (rule bucket_keys_range) simp
  next
    case Database
    with assms f show ?thesis by (simp add: get_metrics_def)
  qed
  then show "sorted_wrt (<) (bucket_times d)"
    and "0 < w \<Longrightarrow> b \<in> set (bucket_times d) \<Longrightarrow> b \<le> en \<and> st < b + w"
    and "en < st \<Longrightarrow> bucket_times d = []" by blast+
qed

subsection \<open>Two samples out of order\<close>

lemma server_row_sel:
  "sm_time (server_row t rid p) = t" "sm_resource_id (server_row t rid p) = rid"
  by (simp_all add: server_row_def)

lemma newest_of_two:
  assumes m1: "server_metrics s2 = server_metrics s @ [server_row t1 rid p1, server_row t2 rid p2]"
    and "t2 < t1"
    and old: "\<forall>m \<in> set (server_metrics s). sm_resource_id m = rid \<longrightarrow> sm_time m < t1"
    and fresh: "now - freshness_horizon < t1"
  shows "get_resource_status now s2 rid = derive_status (server_row t1 rid p1)"
proof -
  let ?rows = "filter (\<lambda>m. sm_resource_id m = rid \<and> now - freshness_horizon < sm_time m)
                 (server_metrics s2)"
  have "latest_by sm_time ?rows = Some (server_row t1 rid p1)"
  proof (rule latest_by_unique_max)
    show "server_row t1 rid p1 \<in> set ?rows"
      using fresh by (simp add: m1 server_row_sel)
  next
    fix y assume y: "y \<in> set ?rows" and ne: "y \<noteq> server_row t1 rid p1"
    from y have "sm_resource_id y = rid" and "y \<in> set (server_metrics s2)"
      by simp_all
    with ne have yr: "sm_resource_id y = rid"
      and "y \<in> set (server_metrics s) \<or> y = server_row t2 rid p2"
      by (auto simp add: m1)
    then consider (stored) "y \<in> set (server_metrics s)" | (second) "y = server_row t2 rid p2"
      by blast
    then have "sm_time y < t1"
    proof cases
      case stored
      with old yr show ?thesis by blast
    next
      case second
      then have "sm_time y = t2" by (simp only: server_row_sel)
      with assms(2) show ?thesis by simp
    qed
    then show "sm_time y < sm_time (server_row t1 rid p1)"
      by (simp only: server_row_sel)
  qed
  then show ?thesis
    by (simp add: get_resource_status_def recent_metric_def)
qed

subsection \<open>A sample stored twice\<close>

lemma grouped_dup:
  fixes key :: "'r \<Rightarrow> int"
  assumes row: "row \<in> set tbl"
    and F: "\<And>g. row \<in> set g \<Longrightarrow> set g \<subseteq> set (filter P tbl) \<Longrightarrow> \<forall>m\<in>set g. key m = key row \<Longrightarrow>
              F (key row) (g @ [row]) = F (key row) g"
  shows "map (\<lambda>b. F b (filter (\<lambda>m. key m = b) (filter P (tbl @ [row]))))
             (sort (remdups (map key (filter P (tbl @ [row]))))) =
         map (\<lambda>b. F b (filter (\<lambda>m. key m = b) (filter P tbl)))
             (sort (remdups (map key (filter P tbl))))"
proof (cases "P row")
  case True
  then have e: "filter P (tbl @ [row]) = filter P tbl @ [row]" by simp
  have mem: "row \<in> set (filter P tbl)" using row True by simp
  show ?thesis
    unfolding e by (rule group_map_dup [OF mem]) (rule F)
next
  case False
  then have "filter P (tbl @ [row]) = filter P tbl" by simp
  then show ?thesis by (simp only:)
qed

lemma sql_avg_dup_uniform:
  assumes "x \<in> set g" and "\<forall>m \<in> set g. m = x"
  shows "sql_avg (map f (g @ [x])) = sql_avg (map f g)"
proof -
  have "map f g \<noteq> []" using assms(1) by auto
  moreover have "\<forall>v \<in> set (map f g). v = f x" using assms(2) by auto
  ultimately have "sql_avg (map f g @ [f x]) = sql_avg (map f g)"
    by (rule sql_avg_constant)
  then show ?thesis by simp
qed

lemma avg_int_dup_uniform:
  assumes "x \<in> set g" and "\<forall>m \<in> set g. m = x"
  shows "avg_int (map f (g @ [x])) = avg_int (map f g)"
  using sql_avg_dup_uniform [OF assms, of "\<lambda>m. map_option of_int (f m)"]
  by (simp add: avg_int_def o_def)

lemma sql_max_dup: "x \<in> set g \<Longrightarrow> sql_max (map f (g @ [x])) = sql_max (map f g)"
  by (rule sql_max_same_set) auto

lemma sql_min_dup: "x \<in> set g \<Longrightarrow> sql_min (map f (g @ [x])) = sql_min (map f g)"
  by (rule sql_min_same_set) auto

lemma server_range_dup:
  assumes row: "row \<in> set tbl"
    and only: "\<forall>m \<in> set tbl. sm_resource_id m = sm_resource_id row \<and>
                 time_bucket w (sm_time m) = time_bucket w (sm_time row) \<longrightarrow> m = row"
  shows "server_range w rid st en (tbl @ [row]) = server_range w rid st en tbl"
  unfolding server_range_def Let_def bucket_keys_def map_map o_def
proof (rule grouped_dup [OF row])
  fix g
  assume g: "row \<in> set g"
    "set g \<subseteq> set (filter (\<lambda>m. sm_resource_id m = rid \<and> st \<le> sm_time m \<and> sm_time m \<le> en) tbl)"
    "\<forall>m\<in>set g. time_bucket w (sm_time m) = time_bucket w (sm_time row)"
  have u: "\<forall>m \<in> set g. m = row"
  proof
    fix m assume m: "m \<in> set g"
    with g(2) have "m \<in> set tbl" and "sm_resource_id m = rid" by auto
    moreover from g(1,2) have "sm_resource_id row = rid" by auto
    ultimately show "m = row" using only g(3) m by auto
  qed
  show "\<lparr>sb_bucket = time_bucket w (sm_time row),
          sb_cpu = sql_avg (map sm_cpu_usage_percent (g @ [row])),
          sb_memory_mb = avg_int (map sm_memory_used_mb (g @ [row])),
          sb_disk_mb = avg_int (map sm_disk_used_mb (g @ [row]))\<rparr> =
        \<lparr>sb_bucket = time_bucket w (sm_time row),
          sb_cpu = sql_avg (map sm_cpu_usage_percent g),
          sb_memory_mb = avg_int (map sm_memory_used_mb g),
          sb_disk_mb = avg_int (map sm_disk_used_mb g)\<rparr>"
    by (simp only: sql_avg_dup_uniform [OF g(1) u] avg_int_dup_uniform [OF g(1) u])
qed

lemma view_dup_projections:
  assumes row: "row \<in> set tbl"
  shows "map h_bucket (server_metrics_1h (tbl @ [row]) rid) = map h_bucket (server_metrics_1h tbl rid)"
    and "map h_min_cpu (server_metrics_1h (tbl @ [row]) rid) = map h_min_cpu (server_metrics_1h tbl rid)"
    and "map h_max_cpu (server_metrics_1h (tbl @ [row]) rid) = map h_max_cpu (server_metrics_1h tbl rid)"
    and "map h_max_memory (server_metrics_1h (tbl @ [row]) rid) = map h_max_memory (server_metrics_1h tbl rid)"
proof -
  show "map h_bucket (server_metrics_1h (tbl @ [row]) rid) = map h_bucket (server_metrics_1h tbl rid)"
    unfolding server_metrics_1h_def Let_def bucket_keys_def map_map o_def server_1h_row.select_convs
    by (rule grouped_dup [OF row, where F = "\<lambda>b g. b"]) (rule refl)
  show "map h_min_cpu (server_metrics_1h (tbl @ [row]) rid) = map h_min_cpu (server_metrics_1h tbl rid)"
    unfolding server_metrics_1h_def Let_def bucket_keys_def map_map o_def server_1h_row.select_convs
    by (rule grouped_dup [OF row, where F = "\<lambda>b g. sql_min (map sm_cpu_usage_percent g)"])
       (rule sql_min_dup)
  show "map h_max_cpu (server_metrics_1h (tbl @ [row]) rid) = map h_max_cpu (server_metrics_1h tbl rid)"
    unfolding server_metrics_1h_def Let_def bucket_keys_def map_map o_def server_1h_row.select_convs
    by (rule grouped_dup [OF row, where F = "\<lambda>b g. sql_max (map sm_cpu_usage_percent g)"])
       (rule sql_max_dup)
  show "map h_max_memory (server_metrics_1h (tbl @ [row]) rid) = map h_max_memory (server_metrics_1h tbl rid)"
    unfolding server_metrics_1h_def Let_def bucket_keys_def map_map o_def server_1h_row.select_convs
    by (rule grouped_dup [OF row, where F = "\<lambda>b g. sql_max (map sm_memory_usage_percent g)"])
       (rule sql_max_dup)
qed

lemma view_dup_uniform:
  assumes row: "row \<in> set tbl"
    and only: "\<forall>m \<in> set tbl. sm_resource_id m = sm_resource_id row \<and>
                 time_bucket 3600000 (sm_time m) = time_bucket 3600000 (sm_time row) \<longrightarrow> m = row"
  shows "server_metrics_1h (tbl @ [row]) rid = server_metrics_1h tbl rid"
  unfolding server_metrics_1h_def Let_def bucket_keys_def map_map o_def
proof (rule grouped_dup [OF row])
  fix g
  assume g: "row \<in> set g"
    "set g \<subseteq> set (filter (\<lambda>m. sm_resource_id m = rid) tbl)"
    "\<forall>m\<in>set g. time_bucket 3600000 (sm_time m) = time_bucket 3600000 (sm_time row)"
  have u: "\<forall>m \<in> set g. m = row"
  proof
    fix m assume m: "m \<in> set g"
    with g(2) have "m \<in> set tbl" and "sm_resource_id m = rid" by auto
    moreover from g(1,2) have "sm_resource_id row = rid" by auto
    ultimately show "m = row" using only g(3) m by auto
  qed
  show "\<lparr>h_bucket = time_bucket 3600000 (sm_time row), h_resource_id = rid,
          h_avg_cpu = sql_avg (map sm_cpu_usage_percent (g @ [row])),
          h_max_cpu = sql_max (map sm_cpu_usage_percent (g @ [row])),
          h_min_cpu = sql_min (map sm_cpu_usage_percent (g @ [row])),
          h_avg_memory = sql_avg (map sm_memory_usage_percent (g @ [row])),
          h_max_memory = sql_max (map sm_memory_usage_percent (g @ [row])),
          h_avg_disk = sql_avg (map sm_disk_usage_percent (g @ [row]))\<rparr> =
        \<lparr>h_bucket = time_bucket 3600000 (sm_time row), h_resource_id = rid,
          h_avg_cpu = sql_avg (map sm_cpu_usage_percent g),
          h_max_cpu = sql_max (map sm_cpu_usage_percent g),
          h_min_cpu = sql_min (map sm_cpu_usage_percent g),
          h_avg_memory = sql_avg (map sm_memory_usage_percent g),
          h_max_memory = sql_max (map sm_memory_usage_percent g),
          h_avg_disk = sql_avg (map sm_disk_usage_percent g)\<rparr>"
    by (simp only: sql_avg_dup_uniform [OF g(1) u] sql_max_dup [OF g(1)] sql_min_dup [OF g(1)])
qed

lemma validateApiKey_server_metrics:
  "validateApiKey cmp now (s\<lparr>server_metrics := tbl\<rparr>) k =
     (fst (validateApiKey cmp now s k), (snd (validateApiKey cmp now s k))\<lparr>server_metrics := tbl\<rparr>)"
  by (simp add: validateApiKey_def split: option.splits)

lemma check_api_key_server_metrics:
  "check_api_key cmp now (s\<lparr>server_metrics := tbl\<rparr>) hdr =
     (fst (check_api_key cmp now s hdr), (snd (check_api_key cmp now s hdr))\<lparr>server_metrics := tbl\<rparr>)"
  by (simp add: check_api_key_def validateApiKey_server_metrics split: option.splits prod.splits)

lemma ingest_server_any_table:
  "fst (ingest_server cmp now (s\<lparr>server_metrics := tbl\<rparr>) req) = fst (ingest_server cmp now s req)"
proof -
  obtain res s1 where ck: "check_api_key cmp now s (sq_api_key req) = (res, s1)"
    by (cases "check_api_key cmp now s (sq_api_key req)")
  have ck': "check_api_key cmp now (s\<lparr>server_metrics := tbl\<rparr>) (sq_api_key req) =
      (res, s1\<lparr>server_metrics := tbl\<rparr>)"
    by (simp add: check_api_key_server_metrics ck)
  show ?thesis
    unfolding ingest_server_fst [OF ck] ingest_server_fst [OF ck']
    by (simp add: resource_owned_def split: sum.splits)
qed

section \<open>Claim C1: acknowledging and resolving incidents\<close>




section \<open>Claim C2: a failing publish\<close>




section \<open>Claim C3: samples arriving out of order\<close>

text \<open>
  Claim C3 as stated: after a sample of time 100 and then one of time 50 the status
  follows the sample of time 100, and \<open>lastSeenAt\<close> never moves back. Every route
  writes \<open>last_seen_at\<close> from the arriving sample, and the website and network
  routes write the status from it too. Here a website is seen available at time
  100 and then unavailable at time 50: it ends offline, last seen at 50; and a
  server that receives the same two times ends last seen at 50.
\<close>

theorem out_of_order_counterexample:
  "fst (ingest_website example_cmp 200 example_sys (example_website_request 100 True)) = Inr 100
 \<and> fst (ingest_website example_cmp 300
          (snd (ingest_website example_cmp 200 example_sys (example_website_request 100 True)))
          (example_website_request 50 False)) = Inr 50
 \<and> map (\<lambda>r. (r_status r, r_last_seen_at r))
      (filter (\<lambda>r. r_id r = ''w1'')
         (resources (snd (ingest_website example_cmp 300
            (snd (ingest_website example_cmp 200 example_sys (example_website_request 100 True)))
            (example_website_request 50 False)))))
      = [(Offline, Some 50)]
 \<and> fst (ingest_server example_cmp 200 example_sys (example_request 100 95)) = Inr 100
 \<and> fst (ingest_server example_cmp 300
          (snd (ingest_server example_cmp 200 example_sys (example_request 100 95)))
          (example_request 50 10)) = Inr 50
 \<and> map r_last_seen_at
      (filter (\<lambda>r. r_id r = ''r1'')
         (resources (snd (ingest_server example_cmp 300
            (snd (ingest_server example_cmp 200 example_sys (example_request 100 95)))
            (example_request 50 10)))))
      = [Some 50]"
  by code_simp

text \<open>
  Claim C3, amended: when a sample of time t1 and then a sample of an earlier time
  t2 are ingested for a server whose stored samples are all older than t1, and t1
  is within five minutes of the second ingest, the status written is the one
  derived from the sample of time t1. For a website or a network target the status
  written is that of the sample that arrived last. In all three routes
  \<open>last_seen_at\<close> becomes the time of the sample that arrived last, so it moves
  back to t2.
\<close>

theorem out_of_order_arrival:
  "(ingest_server cmp now1 s sreq1 = (Inr t1, sa) \<and> ingest_server cmp now2 sa sreq2 = (Inr t2, sb)
      \<and> sq_resourceId sreq1 = rid \<and> sq_resourceId sreq2 = rid \<and> t2 < t1
      \<and> (\<forall>m \<in> set (server_metrics s). sm_resource_id m = rid \<longrightarrow> sm_time m < t1)
      \<and> now2 - freshness_horizon < t1
    \<longrightarrow> (\<forall>r \<in> set (resources sb). r_id r = rid \<longrightarrow>
           r_status r = derive_status (server_row t1 rid (sq_metrics sreq1)) \<and>
           r_last_seen_at r = Some t2))
 \<and> (ingest_website cmp now1 s wreq1 = (Inr t1, wa) \<and> ingest_website cmp now2 wa wreq2 = (Inr t2, wb)
      \<and> wq_resourceId wreq2 = rid
    \<longrightarrow> (\<forall>r \<in> set (resources wb). r_id r = rid \<longrightarrow>
           r_status r = (if wp_isAvailable (wq_metrics wreq2) then Online else Offline) \<and>
           r_last_seen_at r = Some t2))
 \<and> (ingest_network cmp now1 s nreq1 = (Inr t1, na) \<and> ingest_network cmp now2 na nreq2 = (Inr t2, nb)
      \<and> nq_resourceId nreq2 = rid
    \<longrightarrow> (\<forall>r \<in> set (resources nb). r_id r = rid \<longrightarrow>
           r_status r = (if np_isAvailable (nq_metrics nreq2) then Online else Offline) \<and>
           r_last_seen_at r = Some t2))"
proof (intro conjI impI ballI)
  fix r
  assume a: "ingest_server cmp now1 s sreq1 = (Inr t1, sa) \<and> ingest_server cmp now2 sa sreq2 = (Inr t2, sb)
      \<and> sq_resourceId sreq1 = rid \<and> sq_resourceId sreq2 = rid \<and> t2 < t1
      \<and> (\<forall>m \<in> set (server_metrics s). sm_resource_id m = rid \<longrightarrow> sm_time m < t1)
      \<and> now2 - freshness_horizon < t1"
    and r: "r \<in> set (resources sb)" "r_id r = rid"
  from a have i1: "ingest_server cmp now1 s sreq1 = (Inr t1, sa)"
    and i2: "ingest_server cmp now2 sa sreq2 = (Inr t2, sb)"
    and rid: "sq_resourceId sreq1 = rid" "sq_resourceId sreq2 = rid" by simp_all
  have m: "server_metrics sb =
      server_metrics s @ [server_row t1 rid (sq_metrics sreq1), server_row t2 rid (sq_metrics sreq2)]"
    using ingest_server_result(2) [OF i1] ingest_server_result(2) [OF i2] rid by simp
  have st: "get_resource_status now2 sb rid = derive_status (server_row t1 rid (sq_metrics sreq1))"
    by (rule newest_of_two [OF m]) (use a in simp_all)
  from r show "r_status r = derive_status (server_row t1 rid (sq_metrics sreq1))"
    unfolding ingest_server_result(3) [OF i2] rid
    by (rule updated_rows) (simp add: st)
  from r show "r_last_seen_at r = Some t2"
    unfolding ingest_server_result(3) [OF i2] rid
    by (rule updated_rows) simp
next
  fix r
  assume a: "ingest_website cmp now1 s wreq1 = (Inr t1, wa) \<and> ingest_website cmp now2 wa wreq2 = (Inr t2, wb)
      \<and> wq_resourceId wreq2 = rid"
    and r: "r \<in> set (resources wb)" "r_id r = rid"
  from a have i2: "ingest_website cmp now2 wa wreq2 = (Inr t2, wb)"
    and rid: "wq_resourceId wreq2 = rid" by simp_all
  from r show "r_status r = (if wp_isAvailable (wq_metrics wreq2) then Online else Offline)"
    unfolding ingest_website_result(3) [OF i2] rid
    by (rule updated_rows) simp
  from r show "r_last_seen_at r = Some t2"
    unfolding ingest_website_result(3) [OF i2] rid
    by (rule updated_rows) simp
next
  fix r
  assume a: "ingest_network cmp now1 s nreq1 = (Inr t1, na) \<and> ingest_network cmp now2 na nreq2 = (Inr t2, nb)
      \<and> nq_resourceId nreq2 = rid"
    and r: "r \<in> set (resources nb)" "r_id r = rid"
  from a have i2: "ingest_network cmp now2 na nreq2 = (Inr t2, nb)"
    and rid: "nq_resourceId nreq2 = rid" by simp_all
  from r show "r_status r = (if np_isAvailable (nq_metrics nreq2) then Online else Offline)"
    unfolding ingest_network_result(3) [OF i2] rid
    by (rule updated_rows) simp
  from r show "r_last_seen_at r = Some t2"
    unfolding ingest_network_result(3) [OF i2] rid
    by (rule updated_rows) simp
qed

text \<open>The amended claim on times 100 and 50, for a server, a website and a network target.\<close>

theorem out_of_order_arrival_witness:
  "ingest_server example_cmp 200 example_sys (example_request 100 95) =
     (Inr 100, snd (ingest_server example_cmp 200 example_sys (example_request 100 95)))
 \<and> ingest_server example_cmp 300
       (snd (ingest_server example_cmp 200 example_sys (example_request 100 95)))
       (example_request 50 10) =
     (Inr 50, snd (ingest_server example_cmp 300
       (snd (ingest_server example_cmp 200 example_sys (example_request 100 95)))
       (example_request 50 10)))
 \<and> sq_resourceId (example_request 100 95) = ''r1''
 \<and> sq_resourceId (example_request 50 10) = ''r1''
 \<and> (50::int) < 100
 \<and> list_all (\<lambda>m. sm_resource_id m = ''r1'' \<longrightarrow> sm_time m < 100) (server_metrics example_sys)
 \<and> 300 - freshness_horizon < 100
 \<and> derive_status (server_row 100 ''r1'' (sq_metrics (example_request 100 95))) = Critical
 \<and> list_all (\<lambda>r. r_id r = ''r1'' \<longrightarrow>
        r_status r = derive_status (server_row 100 ''r1'' (sq_metrics (example_request 100 95))) \<and>
        r_last_seen_at r = Some 50)
      (resources (snd (ingest_server example_cmp 300
         (snd (ingest_server example_cmp 200 example_sys (example_request 100 95)))
         (example_request 50 10))))
 \<and> ingest_website example_cmp 200 example_sys (example_website_request 100 True) =
     (Inr 100, snd (ingest_website example_cmp 200 example_sys (example_website_request 100 True)))
 \<and> ingest_website example_cmp 300
       (snd (ingest_website example_cmp 200 example_sys (example_website_request 100 True)))
       (example_website_request 50 False) =
     (Inr 50, snd (ingest_website example_cmp 300
       (snd (ingest_website example_cmp 200 example_sys (example_website_request 100 True)))
       (example_website_request 50 False)))
 \<and> wq_resourceId (example_website_request 50 False) = ''w1''
 \<and> list_all (\<lambda>r. r_id r = ''w1'' \<longrightarrow> r_status r = Offline \<and> r_last_seen_at r = Some 50)
      (resources (snd (ingest_website example_cmp 300
         (snd (ingest_website example_cmp 200 example_sys (example_website_request 100 True)))
         (example_website_request 50 False))))
 \<and> ingest_network example_cmp 200 example_sys (example_network_request 100 True) =
     (Inr 100, snd (ingest_network example_cmp 200 example_sys (example_network_request 100 True)))
 \<and> ingest_network example_cmp 300
       (snd (ingest_network example_cmp 200 example_sys (example_network_request 100 True)))
       (example_network_request 50 False) =
     (Inr 50, snd (ingest_network example_cmp 300
       (snd (ingest_network example_cmp 200 example_sys (example_network_request 100 True)))
       (example_network_request 50 False)))
 \<and> nq_resourceId (example_network_request 50 False) = ''n1''
 \<and> list_all (\<lambda>r. r_id r = ''n1'' \<longrightarrow> r_status r = Offline \<and> r_last_seen_at r = Some 50)
      (resources (snd (ingest_network example_cmp 300
         (snd (ingest_network example_cmp 200 example_sys (example_network_request 100 True)))
         (example_network_request 50 False))))"
proof -
  let ?a1 = "ingest_server example_cmp 200 example_sys (example_request 100 95)"
  let ?a2 = "ingest_server example_cmp 300 (snd ?a1) (example_request 50 10)"
  let ?w1 = "ingest_website example_cmp 200 example_sys (example_website_request 100 True)"
  let ?w2 = "ingest_website example_cmp 300 (snd ?w1) (example_website_request 50 False)"
  let ?n1 = "ingest_network example_cmp 200 example_sys (example_network_request 100 True)"
  let ?n2 = "ingest_network example_cmp 300 (snd ?n1) (example_network_request 50 False)"
  have fa1: "fst ?a1 = Inr 100" by code_simp
  have fa2: "fst ?a2 = Inr 50" by code_simp
  have fw1: "fst ?w1 = Inr 100" by code_simp
  have fw2: "fst ?w2 = Inr 50" by code_simp
  have fn1: "fst ?n1 = Inr 100" by code_simp
  have fn2: "fst ?n2 = Inr 50" by code_simp
  have a1: "?a1 = (Inr 100, snd ?a1)" by (rule prod_eqI) (simp_all only: fst_conv snd_conv fa1)
  have a2: "?a2 = (Inr 50, snd ?a2)" by (rule prod_eqI) (simp_all only: fst_conv snd_conv fa2)
  have w1: "?w1 = (Inr 100, snd ?w1)" by (rule prod_eqI) (simp_all only: fst_conv snd_conv fw1)
  have w2: "?w2 = (Inr 50, snd ?w2)" by (rule prod_eqI) (simp_all only: fst_conv snd_conv fw2)
  have n1: "?n1 = (Inr 100, snd ?n1)" by (rule prod_eqI) (simp_all only: fst_conv snd_conv fn1)
  have n2: "?n2 = (Inr 50, snd ?n2)" by (rule prod_eqI) (simp_all only: fst_conv snd_conv fn2)
  have r1: "sq_resourceId (example_request 100 95) = ''r1''"
    and r2: "sq_resourceId (example_request 50 10) = ''r1''"
    and r3: "wq_resourceId (example_website_request 50 False) = ''w1''"
    and r4: "nq_resourceId (example_network_request 50 False) = ''n1''"
    by (simp_all add: example_request_def example_website_request_def example_network_request_def)
  have k: "wp_isAvailable (wq_metrics (example_website_request 50 False)) = False"
    "np_isAvailable (nq_metrics (example_network_request 50 False)) = False"
    by (simp_all add: example_website_request_def example_network_request_def)
  have lt: "(50::int) < 100" by simp
  have old: "list_all (\<lambda>m. sm_resource_id m = ''r1'' \<longrightarrow> sm_time m < 100) (server_metrics example_sys)"
    by (simp add: example_sys_def)
  have fresh: "300 - freshness_horizon < 100" by (simp add: freshness_horizon_def)
  have crit: "derive_status (server_row 100 ''r1'' (sq_metrics (example_request 100 95))) = Critical"
    by code_simp
  note t = out_of_order_arrival [where cmp = example_cmp and s = example_sys
      and ?now1.0 = 200 and ?now2.0 = 300 and ?t1.0 = 100 and ?t2.0 = 50]
  note ts = t [where rid = "''r1''" and ?sreq1.0 = "example_request 100 95"
      and ?sreq2.0 = "example_request 50 10" and sa = "snd ?a1" and sb = "snd ?a2",
      THEN conjunct1, THEN mp,
      OF conjI [OF a1 conjI [OF a2 conjI [OF r1 conjI [OF r2 conjI [OF lt
           conjI [OF old [unfolded list_all_iff] fresh]]]]]]]
  note tw = t [where rid = "''w1''" and ?wreq1.0 = "example_website_request 100 True"
      and ?wreq2.0 = "example_website_request 50 False" and wa = "snd ?w1" and wb = "snd ?w2",
      THEN conjunct2, THEN conjunct1, THEN mp, OF conjI [OF w1 conjI [OF w2 r3]]]
  note tn = t [where rid = "''n1''" and ?nreq1.0 = "example_network_request 100 True"
      and ?nreq2.0 = "example_network_request 50 False" and na = "snd ?n1" and nb = "snd ?n2",
      THEN conjunct2, THEN conjunct2, THEN mp, OF conjI [OF n1 conjI [OF n2 r4]]]
  show ?thesis
    by (intro conjI)
       (rule a1 a2 r1 r2 lt old fresh crit w1 w2 r3 n1 n2 r4
          ts [folded list_all_iff]
          tw [unfolded k if_False, folded list_all_iff]
          tn [unfolded k if_False, folded list_all_iff])+
qed

section \<open>Claim C4: latest metrics\<close>

text \<open>
  Claim C4 as stated: \<open>POST /metrics/latest\<close> has an entry for a resource only if
  a sample exists within the freshness horizon of five minutes. The route selects
  the newest row whatever its age. Here the only sample of server \<open>r1\<close> was taken at
  time 0; a thousand seconds later it is older than the horizon (the derived status
  is unknown), and the route still returns it.
\<close>

theorem stale_sample_counterexample:
  "map sm_time (server_metrics example_stale) = [0]
 \<and> (0::int) + freshness_horizon < 1000000
 \<and> get_resource_status 1000000 example_stale ''r1'' = Unknown
 \<and> (case metrics_latest example_user example_stale (Some [''r1'']) of
       Inl e \<Rightarrow> None
     | Inr m \<Rightarrow> map_option le_time (m ''r1'')) = Some 0"
  by code_simp

text \<open>
  Claim C4, amended: for every requested resource that the caller may see (its own,
  or any for an admin), the result of \<open>POST /metrics/latest\<close> has an entry exactly
  when a sample of the resource is stored, whatever its age, and the entry carries
  the greatest sample time; there is no freshness horizon in this route. Resource
  ids are the primary key of the resources table.
\<close>

theorem latest_ignores_age:
  assumes "distinct (map r_id (resources s))" and "res \<in> set (resources s)"
    and "r_id res \<in> set ids"
    and "u_role usr = Some ''admin'' \<or> r_user_id res = u_id usr"
  shows "\<exists>m. metrics_latest usr s (Some ids) = Inr m
           \<and> (m (r_id res) = None \<longleftrightarrow> sample_times s res = [])
           \<and> (\<forall>e. m (r_id res) = Some e \<longrightarrow>
                 le_time e \<in> set (sample_times s res) \<and>
                 (\<forall>t \<in> set (sample_times s res). t \<le> le_time e))"
proof -
  let ?valid = "filter (\<lambda>r. r_id r \<in> set ids \<and> (u_role usr = Some ''admin'' \<or> r_user_id r = u_id usr))
                  (resources s)"
  let ?m = "latest_loop s ?valid Map.empty"
  have d: "distinct (map r_id ?valid)" using assms(1) by (rule distinct_map_filter)
  have mem: "res \<in> set ?valid" using assms(2,3,4) by simp
  have look: "?m (r_id res) = latest_of s res"
    using latest_loop_lookup [OF d mem, of s Map.empty] by (simp split: option.splits)
  have eq: "metrics_latest usr s (Some ids) = Inr ?m"
    by (simp add: metrics_latest_def)
  have a: "?m (r_id res) = None \<longleftrightarrow> sample_times s res = []"
    by (simp only: look latest_of_None)
  have b: "\<forall>e. ?m (r_id res) = Some e \<longrightarrow>
                 le_time e \<in> set (sample_times s res) \<and>
                 (\<forall>t \<in> set (sample_times s res). t \<le> le_time e)"
    unfolding look using latest_of_Some by blast
  show ?thesis
    by (rule exI [where x = ?m], intro conjI) (rule eq a b)+
qed

text \<open>The amended claim on the server of the sample data and its sample of time 0.\<close>

theorem latest_ignores_age_witness:
  "distinct (map r_id (resources example_stale))
 \<and> hd (resources example_stale) \<in> set (resources example_stale)
 \<and> r_id (hd (resources example_stale)) \<in> set [''r1'']
 \<and> r_user_id (hd (resources example_stale)) = u_id example_user
 \<and> sample_times example_stale (hd (resources example_stale)) = [0]
 \<and> (\<exists>m. metrics_latest example_user example_stale (Some [''r1'']) = Inr m
        \<and> (m (r_id (hd (resources example_stale))) = None \<longleftrightarrow>
             sample_times example_stale (hd (resources example_stale)) = [])
        \<and> (\<forall>e. m (r_id (hd (resources example_stale))) = Some e \<longrightarrow>
              le_time e \<in> set (sample_times example_stale (hd (resources example_stale))) \<and>
              (\<forall>t \<in> set (sample_times example_stale (hd (resources example_stale))). t \<le> le_time e)))"
proof -
  let ?res = "hd (resources example_stale)"
  have h1: "distinct (map r_id (resources example_stale))" by code_simp
  have h2: "?res \<in> set (resources example_stale)" by code_simp
  have h3: "r_id ?res \<in> set [''r1'']" by code_simp
  have h4: "r_user_id ?res = u_id example_user" by code_simp
  have h5: "sample_times example_stale ?res = [0]" by code_simp
  show ?thesis
    by (intro conjI)
       (rule h1 h2 h3 h4 h5 latest_ignores_age [OF h1 h2 h3 disjI2 [OF h4]])+
qed

section \<open>Claim C5: incidents and ingestion\<close>

text \<open>
  Claim C5 as stated: consecutive samples that violate an active policy produce
  exactly one active incident, created on the first qualifying violation. No
  ingestion route evaluates a policy or writes to the incident tables. Here the
  policy on the CPU usage of server \<open>r1\<close> (threshold 90, duration 60 seconds) is
  active; samples with CPU usage 95, 96 and 97 are taken at 100, 190 and 250
  seconds and each is accepted 200 milliseconds later, so the condition has held
  for 90 seconds, longer than the duration of the policy, when the second sample
  arrives. No incident exists after the second sample, nor after the third.
\<close>

theorem violating_samples_counterexample:
  "list_ex (\<lambda>ap. ap_id ap = ''p1'' \<and> ap_is_active ap \<and> ap_resource_id ap = ''r1'' \<and>
                 ap_metric_name ap = ''cpuUsagePercent'' \<and> ap_condition ap = ''gt'' \<and>
                 ap_threshold ap < 95 \<and>
                 ap_duration_seconds ap * 1000 \<le> 190000 - 100000)
           (alert_policies example_sys)
 \<and> fst (ingest_server example_cmp 100200 example_sys (example_request 100000 95)) = Inr 100000
 \<and> fst (ingest_server example_cmp 190200
          (snd (ingest_server example_cmp 100200 example_sys (example_request 100000 95)))
          (example_request 190000 96)) = Inr 190000
 \<and> filter (\<lambda>i. i_alert_policy_id i = ''p1'' \<and> i_resource_id i = ''r1'' \<and> i_state i = Active)
      (incidents (snd (ingest_server example_cmp 190200
          (snd (ingest_server example_cmp 100200 example_sys (example_request 100000 95)))
          (example_request 190000 96)))) = []
 \<and> fst (ingest_server example_cmp 250200
          (snd (ingest_server example_cmp 190200
             (snd (ingest_server example_cmp 100200 example_sys (example_request 100000 95)))
             (example_request 190000 96)))
          (example_request 250000 97)) = Inr 250000
 \<and> filter (\<lambda>i. i_alert_policy_id i = ''p1'' \<and> i_resource_id i = ''r1'' \<and> i_state i = Active)
      (incidents (snd (ingest_server example_cmp 250200
          (snd (ingest_server example_cmp 190200
             (snd (ingest_server example_cmp 100200 example_sys (example_request 100000 95)))
             (example_request 190000 96)))
          (example_request 250000 97)))) = []"
  by code_simp

text \<open>
  Claim C5, amended: ingestion never opens, changes or removes an incident. Every
  request to an ingestion route (server, website, network, batch) leaves the
  incident table and the incident history as they were, so consecutive violating
  samples produce no incident, and the number of open incidents of a (policy,
  resource) pair is what it was before.
\<close>

theorem ingestion_opens_no_incident:
  "incidents (snd (ingest_server cmp now s sreq)) = incidents s
 \<and> incident_history (snd (ingest_server cmp now s sreq)) = incident_history s
 \<and> incidents (snd (ingest_website cmp now s wreq)) = incidents s
 \<and> incident_history (snd (ingest_website cmp now s wreq)) = incident_history s
 \<and> incidents (snd (ingest_network cmp now s nreq)) = incidents s
 \<and> incident_history (snd (ingest_network cmp now s nreq)) = incident_history s
 \<and> incidents (snd (ingest_batch cmp now s hdr body)) = incidents s
 \<and> incident_history (snd (ingest_batch cmp now s hdr body)) = incident_history s"
  by (intro conjI)
     (rule ingest_server_keeps ingest_website_keeps ingest_network_keeps ingest_batch_keeps)+

text \<open>The amended claim on the three violating samples above.\<close>

theorem ingestion_opens_no_incident_witness:
  "incidents (snd (ingest_server example_cmp 250200
      (snd (ingest_server example_cmp 190200
         (snd (ingest_server example_cmp 100200 example_sys (example_request 100000 95)))
         (example_request 190000 96)))
      (example_request 250000 97))) = []"
proof -
  let ?a = "snd (ingest_server example_cmp 100200 example_sys (example_request 100000 95))"
  let ?b = "snd (ingest_server example_cmp 190200 ?a (example_request 190000 96))"
  note a = ingestion_opens_no_incident [of example_cmp 100200 example_sys
      "example_request 100000 95", THEN conjunct1]
  note b = ingestion_opens_no_incident [of example_cmp 190200 ?a
      "example_request 190000 96", THEN conjunct1]
  note c = ingestion_opens_no_incident [of example_cmp 250200 ?b
      "example_request 250000 97", THEN conjunct1]
  have e: "incidents example_sys = []" by (simp add: example_sys_def)
  show ?thesis by (simp only: a b c e)
qed

section \<open>Claim C6: status derivation\<close>

text \<open>
  Claim C6 as stated covers database resources: availability false yields offline.
  The only derivation that takes any resource id, \<open>get_resource_status\<close>, reads
  \<open>server_metrics\<close> alone, and there is no ingestion route for database samples.
  Here the database resource \<open>d1\<close> has a sample 100 ms old that says it is not
  available, and its derived status is unknown; and the batch route, the only one
  that takes an entry of type database, counts it as an error and leaves the
  status as it was.
\<close>

theorem database_status_counterexample:
  "list_ex (\<lambda>r. r_id r = ''d1'' \<and> r_type r = Database) (resources example_sys)
 \<and> get_resource_status 1000
      (example_sys\<lparr>database_metrics :=
         [\<lparr>dm_time = 900, dm_resource_id = ''d1'', dm_connections_active = Some 3,
           dm_is_available = Some False\<rparr>]\<rparr>) ''d1'' = Unknown
 \<and> fst (ingest_batch example_cmp 1000 example_sys (Some ''k1'')
          (MetricsArray [Entry (Some ''database'')]))
      = Inr \<lparr>processed = 0, errors = 1, total = 1\<rparr>
 \<and> map r_status (filter (\<lambda>r. r_id r = ''d1'')
        (resources (snd (ingest_batch example_cmp 1000 example_sys (Some ''k1'')
          (MetricsArray [Entry (Some ''database'')])))))
      = [Unknown]"
  by code_simp

text \<open>
  Claim C6, amended: for a server resource the status is derived by
  \<open>get_resource_status\<close> from the sample of greatest time among those newer than
  five minutes: critical if any of CPU, memory or disk usage percent is greater than
  90, otherwise warning if any is greater than 75, otherwise online; unknown if no
  sample is newer than five minutes. It is what a successful server ingest writes.
  For website and network resources a successful ingest writes offline when the
  arriving sample's availability is false and online when it is true, whatever the
  sample's time. For database resources there is no derivation:
  \<open>get_resource_status\<close> does not depend on the database samples.
\<close>

theorem status_derivation:
  "(\<not> list_ex (\<lambda>m. sm_resource_id m = rid \<and> now - freshness_horizon < sm_time m) (server_metrics s)
      \<longrightarrow> get_resource_status now s rid = Unknown)
 \<and> (list_ex (\<lambda>m. sm_resource_id m = rid \<and> now - freshness_horizon < sm_time m) (server_metrics s)
      \<longrightarrow> recent_metric now s rid \<noteq> None)
 \<and> (recent_metric now s rid = Some m \<longrightarrow>
        m \<in> set (server_metrics s) \<and> sm_resource_id m = rid \<and> now - freshness_horizon < sm_time m
      \<and> (\<forall>m' \<in> set (server_metrics s).
            sm_resource_id m' = rid \<and> now - freshness_horizon < sm_time m' \<longrightarrow> sm_time m' \<le> sm_time m)
      \<and> get_resource_status now s rid =
          (if any_above m 90 then Critical else if any_above m 75 then Warning else Online))
 \<and> (ingest_server cmp now s sreq = (Inr sts, s1) \<longrightarrow>
        (\<forall>r \<in> set (resources s1). r_id r = sq_resourceId sreq \<longrightarrow>
           r_status r = get_resource_status now s1 (sq_resourceId sreq)))
 \<and> (ingest_website cmp now s wreq = (Inr wts, s2) \<longrightarrow>
        (\<forall>r \<in> set (resources s2). r_id r = wq_resourceId wreq \<longrightarrow>
           r_status r = (if wp_isAvailable (wq_metrics wreq) then Online else Offline)))
 \<and> (ingest_network cmp now s nreq = (Inr nts, s3) \<longrightarrow>
        (\<forall>r \<in> set (resources s3). r_id r = nq_resourceId nreq \<longrightarrow>
           r_status r = (if np_isAvailable (nq_metrics nreq) then Online else Offline)))
 \<and> get_resource_status now (s\<lparr>database_metrics := dm\<rparr>) rid = get_resource_status now s rid"
proof (intro conjI impI)
  assume "\<not> list_ex (\<lambda>m. sm_resource_id m = rid \<and> now - freshness_horizon < sm_time m) (server_metrics s)"
  then have "recent_metric now s rid = None" by (simp add: recent_metric_None)
  then show "get_resource_status now s rid = Unknown"
    by (simp add: get_resource_status_def)
next
  assume "list_ex (\<lambda>m. sm_resource_id m = rid \<and> now - freshness_horizon < sm_time m) (server_metrics s)"
  then show "recent_metric now s rid \<noteq> None"
    by (simp add: recent_metric_None)
next
  assume r: "recent_metric now s rid = Some m"
  from recent_metric_Some [OF r]
  show "m \<in> set (server_metrics s)" and "sm_resource_id m = rid"
    and "now - freshness_horizon < sm_time m"
    and "\<forall>m' \<in> set (server_metrics s).
            sm_resource_id m' = rid \<and> now - freshness_horizon < sm_time m' \<longrightarrow> sm_time m' \<le> sm_time m"
    by blast+
  show "get_resource_status now s rid =
          (if any_above m 90 then Critical else if any_above m 75 then Warning else Online)"
    by (simp only: get_resource_status_def r option.case derive_status_bands)
next
  assume a: "ingest_server cmp now s sreq = (Inr sts, s1)"
  show "\<forall>r \<in> set (resources s1). r_id r = sq_resourceId sreq \<longrightarrow>
           r_status r = get_resource_status now s1 (sq_resourceId sreq)"
  proof (intro ballI impI)
    fix r assume "r \<in> set (resources s1)" and "r_id r = sq_resourceId sreq"
    then show "r_status r = get_resource_status now s1 (sq_resourceId sreq)"
      unfolding ingest_server_result(3) [OF a]
      by (rule updated_rows) simp
  qed
next
  assume a: "ingest_website cmp now s wreq = (Inr wts, s2)"
  show "\<forall>r \<in> set (resources s2). r_id r = wq_resourceId wreq \<longrightarrow>
           r_status r = (if wp_isAvailable (wq_metrics wreq) then Online else Offline)"
  proof (intro ballI impI)
    fix r assume "r \<in> set (resources s2)" and "r_id r = wq_resourceId wreq"
    then show "r_status r = (if wp_isAvailable (wq_metrics wreq) then Online else Offline)"
      unfolding ingest_website_result(3) [OF a]
      by (rule updated_rows) simp
  qed
next
  assume a: "ingest_network cmp now s nreq = (Inr nts, s3)"
  show "\<forall>r \<in> set (resources s3). r_id r = nq_resourceId nreq \<longrightarrow>
           r_status r = (if np_isAvailable (nq_metrics nreq) then Online else Offline)"
  proof (intro ballI impI)
    fix r assume "r \<in> set (resources s3)" and "r_id r = nq_resourceId nreq"
    then show "r_status r = (if np_isAvailable (nq_metrics nreq) then Online else Offline)"
      unfolding ingest_network_result(3) [OF a]
      by (rule updated_rows) simp
  qed
next
  show "get_resource_status now (s\<lparr>database_metrics := dm\<rparr>) rid = get_resource_status now s rid"
    by (rule get_resource_status_cong) simp
qed

text \<open>
  The amended claim on the sample data: no sample, a fresh sample with CPU usage 95,
  and an unavailable website and network target.
\<close>

theorem status_derivation_witness:
  "\<not> list_ex (\<lambda>m. sm_resource_id m = ''r1'' \<and> 200 - freshness_horizon < sm_time m)
        (server_metrics example_sys)
 \<and> get_resource_status 200 example_sys ''r1'' = Unknown
 \<and> list_ex (\<lambda>m. sm_resource_id m = ''r1'' \<and> 200 - freshness_horizon < sm_time m)
      (server_metrics (example_sys\<lparr>server_metrics := [server_row 100 ''r1'' (example_payload 95)]\<rparr>))
 \<and> recent_metric 200 (example_sys\<lparr>server_metrics := [server_row 100 ''r1'' (example_payload 95)]\<rparr>) ''r1''
      \<noteq> None
 \<and> recent_metric 200 (example_sys\<lparr>server_metrics := [server_row 100 ''r1'' (example_payload 95)]\<rparr>) ''r1''
      = Some (server_row 100 ''r1'' (example_payload 95))
 \<and> get_resource_status 200 (example_sys\<lparr>server_metrics := [server_row 100 ''r1'' (example_payload 95)]\<rparr>) ''r1''
      = Critical
 \<and> ingest_website example_cmp 200 example_sys (example_website_request 100 False)
      = (Inr 100, snd (ingest_website example_cmp 200 example_sys (example_website_request 100 False)))
 \<and> list_all (\<lambda>r. r_id r = ''w1'' \<longrightarrow> r_status r = Offline)
      (resources (snd (ingest_website example_cmp 200 example_sys (example_website_request 100 False))))
 \<and> ingest_network example_cmp 200 example_sys (example_network_request 100 False)
      = (Inr 100, snd (ingest_network example_cmp 200 example_sys (example_network_request 100 False)))
 \<and> list_all (\<lambda>r. r_id r = ''n1'' \<longrightarrow> r_status r = Offline)
      (resources (snd (ingest_network example_cmp 200 example_sys (example_network_request 100 False))))
 \<and> ingest_server example_cmp 200 example_sys (example_request 100 95)
      = (Inr 100, snd (ingest_server example_cmp 200 example_sys (example_request 100 95)))
 \<and> list_all (\<lambda>r. r_id r = ''r1'' \<longrightarrow> r_status r =
        get_resource_status 200 (snd (ingest_server example_cmp 200 example_sys (example_request 100 95))) ''r1'')
      (resources (snd (ingest_server example_cmp 200 example_sys (example_request 100 95))))"
proof -
  let ?s = "example_sys\<lparr>server_metrics := [server_row 100 ''r1'' (example_payload 95)]\<rparr>"
  let ?m = "server_row 100 ''r1'' (example_payload 95)"
  let ?w = "ingest_website example_cmp 200 example_sys (example_website_request 100 False)"
  let ?n = "ingest_network example_cmp 200 example_sys (example_network_request 100 False)"
  let ?v = "ingest_server example_cmp 200 example_sys (example_request 100 95)"
  have k: "wq_resourceId (example_website_request 100 False) = ''w1''"
    "nq_resourceId (example_network_request 100 False) = ''n1''"
    "sq_resourceId (example_request 100 95) = ''r1''"
    "wp_isAvailable (wq_metrics (example_website_request 100 False)) = False"
    "np_isAvailable (nq_metrics (example_network_request 100 False)) = False"
    by (simp_all add: example_website_request_def example_network_request_def example_request_def)
  have h1: "\<not> list_ex (\<lambda>m. sm_resource_id m = ''r1'' \<and> 200 - freshness_horizon < sm_time m)
        (server_metrics example_sys)" by code_simp
  have h2: "recent_metric 200 ?s ''r1'' = Some ?m" by code_simp
  have h3: "list_ex (\<lambda>m. sm_resource_id m = ''r1'' \<and> 200 - freshness_horizon < sm_time m)
      (server_metrics ?s)" by code_simp
  note t4 = status_derivation [where now = 200 and s = ?s and rid = "''r1''",
      THEN conjunct2, THEN conjunct1, THEN mp, OF h3]
  have ab: "any_above ?m 90" by code_simp
  have fw: "fst ?w = Inr 100" by code_simp
  have hw: "?w = (Inr 100, snd ?w)" by (rule prod_eqI) (simp_all only: fst_conv snd_conv fw)
  have fn: "fst ?n = Inr 100" by code_simp
  have hn: "?n = (Inr 100, snd ?n)" by (rule prod_eqI) (simp_all only: fst_conv snd_conv fn)
  have fv: "fst ?v = Inr 100" by code_simp
  have hv: "?v = (Inr 100, snd ?v)" by (rule prod_eqI) (simp_all only: fst_conv snd_conv fv)
  note t1 = status_derivation [where now = 200 and s = example_sys and rid = "''r1''",
      THEN conjunct1, THEN mp, OF h1]
  note t2 = status_derivation [where now = 200 and s = ?s and rid = "''r1''" and m = ?m,
      THEN conjunct2, THEN conjunct2, THEN conjunct1, THEN mp, OF h2]
  note t3 = status_derivation [where cmp = example_cmp and now = 200 and s = example_sys
      and sreq = "example_request 100 95" and sts = 100 and ?s1.0 = "snd ?v"
      and wreq = "example_website_request 100 False" and wts = 100 and ?s2.0 = "snd ?w"
      and nreq = "example_network_request 100 False" and nts = 100 and ?s3.0 = "snd ?n",
      THEN conjunct2, THEN conjunct2, THEN conjunct2]
  have c: "get_resource_status 200 ?s ''r1'' = Critical"
    using t2 [THEN conjunct2, THEN conjunct2, THEN conjunct2, THEN conjunct2] ab
    by (simp only: if_True)
  show ?thesis
    by (intro conjI)
       (rule h1 t1 h2 h3 t4 c hw hn hv
          t3 [THEN conjunct1, THEN mp, OF hv, unfolded k, folded list_all_iff]
          t3 [THEN conjunct2, THEN conjunct1, THEN mp, OF hw, unfolded k if_False, folded list_all_iff]
          t3 [THEN conjunct2, THEN conjunct2, THEN conjunct1, THEN mp, OF hn, unfolded k if_False,
            folded list_all_iff])+
qed

section \<open>Claim C7: a sample stored twice\<close>

text \<open>
  Claim C7 as stated: ingesting an identical sample again leaves the bucketed
  averages, minima and maxima unchanged. The second row is kept and counted, so an
  average moves towards it. Here the bucket holds CPU usage 10 and 20, average 15;
  after the sample with CPU usage 10 is ingested again the average is 40/3, in the
  range query and in the hourly aggregate.
\<close>

theorem duplicate_average_counterexample:
  "server_row 1000 ''r1'' (sq_metrics (example_request 1000 10)) \<in> set (server_metrics example_two)
 \<and> map sb_cpu (server_range 60000 ''r1'' 0 5000 (server_metrics example_two)) = [Some 15]
 \<and> fst (ingest_server example_cmp 3000 example_two (example_request 1000 10)) = Inr 1000
 \<and> map sb_cpu (server_range 60000 ''r1'' 0 5000
      (server_metrics (snd (ingest_server example_cmp 3000 example_two (example_request 1000 10)))))
      = [Some (40 / 3)]
 \<and> map h_avg_cpu (server_metrics_1h (server_metrics example_two) ''r1'') = [Some 15]
 \<and> map h_avg_cpu (server_metrics_1h
      (server_metrics (snd (ingest_server example_cmp 3000 example_two (example_request 1000 10)))) ''r1'')
      = [Some (40 / 3)]"
  by code_simp

text \<open>
  Claim C7, amended: whether a server ingest request succeeds does not depend on the
  samples already stored, so a sample with the same resource id and timestamp as a
  stored one is accepted like any other, and on success the new row is appended
  after the stored ones (both are retained). Storing again a row that is already
  stored leaves the buckets and each bucket's minimum and maximum unchanged. It
  leaves the averages unchanged, and with them the whole result of the range query
  and of the hourly aggregate, when the stored rows of that resource in the bucket
  of the row are all equal to it; otherwise an average need not stay.
\<close>

theorem duplicate_samples:
  "fst (ingest_server cmp now (s\<lparr>server_metrics := stored\<rparr>) req) = fst (ingest_server cmp now s req)
 \<and> (ingest_server cmp now s req = (Inr ts, s') \<longrightarrow>
       server_metrics s' = server_metrics s @ [server_row ts (sq_resourceId req) (sq_metrics req)])
 \<and> (row \<in> set tbl \<longrightarrow>
       map h_bucket (server_metrics_1h (tbl @ [row]) rid) = map h_bucket (server_metrics_1h tbl rid)
     \<and> map h_min_cpu (server_metrics_1h (tbl @ [row]) rid) = map h_min_cpu (server_metrics_1h tbl rid)
     \<and> map h_max_cpu (server_metrics_1h (tbl @ [row]) rid) = map h_max_cpu (server_metrics_1h tbl rid)
     \<and> map h_max_memory (server_metrics_1h (tbl @ [row]) rid) = map h_max_memory (server_metrics_1h tbl rid))
 \<and> (row \<in> set tbl \<and>
     (\<forall>m \<in> set tbl. sm_resource_id m = sm_resource_id row \<and>
         time_bucket w (sm_time m) = time_bucket w (sm_time row) \<longrightarrow> m = row) \<longrightarrow>
       server_range w rid st en (tbl @ [row]) = server_range w rid st en tbl)
 \<and> (row \<in> set tbl \<and>
     (\<forall>m \<in> set tbl. sm_resource_id m = sm_resource_id row \<and>
         time_bucket 3600000 (sm_time m) = time_bucket 3600000 (sm_time row) \<longrightarrow> m = row) \<longrightarrow>
       server_metrics_1h (tbl @ [row]) rid = server_metrics_1h tbl rid)"
proof (intro conjI impI)
  show "fst (ingest_server cmp now (s\<lparr>server_metrics := stored\<rparr>) req) = fst (ingest_server cmp now s req)"
    by (rule ingest_server_any_table)
next
  assume "ingest_server cmp now s req = (Inr ts, s')"
  then show "server_metrics s' = server_metrics s @ [server_row ts (sq_resourceId req) (sq_metrics req)]"
    by (rule ingest_server_result(2))
next
  assume row: "row \<in> set tbl"
  from view_dup_projections [OF row, of rid]
  show "map h_bucket (server_metrics_1h (tbl @ [row]) rid) = map h_bucket (server_metrics_1h tbl rid)"
    and "map h_min_cpu (server_metrics_1h (tbl @ [row]) rid) = map h_min_cpu (server_metrics_1h tbl rid)"
    and "map h_max_cpu (server_metrics_1h (tbl @ [row]) rid) = map h_max_cpu (server_metrics_1h tbl rid)"
    and "map h_max_memory (server_metrics_1h (tbl @ [row]) rid) = map h_max_memory (server_metrics_1h tbl rid)"
    by blast+
next
  assume "row \<in> set tbl \<and>
     (\<forall>m \<in> set tbl. sm_resource_id m = sm_resource_id row \<and>
         time_bucket w (sm_time m) = time_bucket w (sm_time row) \<longrightarrow> m = row)"
  then show "server_range w rid st en (tbl @ [row]) = server_range w rid st en tbl"
    by (intro server_range_dup) (erule conjunct1, erule conjunct2)
next
  assume "row \<in> set tbl \<and>
     (\<forall>m \<in> set tbl. sm_resource_id m = sm_resource_id row \<and>
         time_bucket 3600000 (sm_time m) = time_bucket 3600000 (sm_time row) \<longrightarrow> m = row)"
  then show "server_metrics_1h (tbl @ [row]) rid = server_metrics_1h tbl rid"
    by (intro view_dup_uniform) (erule conjunct1, erule conjunct2)
qed

text \<open>
  The amended claim on the sample data: the sample of time 1000 ingested again, the
  hourly minimum and maximum with it stored twice, and a bucket that holds only
  copies of it.
\<close>

theorem duplicate_samples_witness:
  "ingest_server example_cmp 3000 example_two (example_request 1000 10) =
     (Inr 1000, snd (ingest_server example_cmp 3000 example_two (example_request 1000 10)))
 \<and> server_metrics (snd (ingest_server example_cmp 3000 example_two (example_request 1000 10))) =
     server_metrics example_two @
       [server_row 1000 (sq_resourceId (example_request 1000 10)) (sq_metrics (example_request 1000 10))]
 \<and> server_row 1000 ''r1'' (example_payload 10) \<in> set (server_metrics example_two)
 \<and> map h_min_cpu (server_metrics_1h
        (server_metrics example_two @ [server_row 1000 ''r1'' (example_payload 10)]) ''r1'') =
     map h_min_cpu (server_metrics_1h (server_metrics example_two) ''r1'')
 \<and> map h_max_cpu (server_metrics_1h
        (server_metrics example_two @ [server_row 1000 ''r1'' (example_payload 10)]) ''r1'') =
     map h_max_cpu (server_metrics_1h (server_metrics example_two) ''r1'')
 \<and> server_row 1000 ''r1'' (example_payload 10) \<in> set [server_row 1000 ''r1'' (example_payload 10)]
 \<and> list_all (\<lambda>m. sm_resource_id m = sm_resource_id (server_row 1000 ''r1'' (example_payload 10)) \<and>
         time_bucket 60000 (sm_time m) = time_bucket 60000 (sm_time (server_row 1000 ''r1'' (example_payload 10)))
         \<longrightarrow> m = server_row 1000 ''r1'' (example_payload 10))
      [server_row 1000 ''r1'' (example_payload 10)]
 \<and> server_range 60000 ''r1'' 0 5000
       ([server_row 1000 ''r1'' (example_payload 10)] @ [server_row 1000 ''r1'' (example_payload 10)]) =
     server_range 60000 ''r1'' 0 5000 [server_row 1000 ''r1'' (example_payload 10)]
 \<and> list_all (\<lambda>m. sm_resource_id m = sm_resource_id (server_row 1000 ''r1'' (example_payload 10)) \<and>
         time_bucket 3600000 (sm_time m) =
           time_bucket 3600000 (sm_time (server_row 1000 ''r1'' (example_payload 10)))
         \<longrightarrow> m = server_row 1000 ''r1'' (example_payload 10))
      [server_row 1000 ''r1'' (example_payload 10)]
 \<and> server_metrics_1h
       ([server_row 1000 ''r1'' (example_payload 10)] @ [server_row 1000 ''r1'' (example_payload 10)]) ''r1'' =
     server_metrics_1h [server_row 1000 ''r1'' (example_payload 10)] ''r1''"
proof -
  let ?row = "server_row 1000 ''r1'' (example_payload 10)"
  let ?i = "ingest_server example_cmp 3000 example_two (example_request 1000 10)"
  have f: "fst ?i = Inr 1000" by code_simp
  have i: "?i = (Inr 1000, snd ?i)" by (rule prod_eqI) (simp_all only: fst_conv snd_conv f)
  have m1: "?row \<in> set (server_metrics example_two)"
    by (simp add: example_two_def)
  have m2: "?row \<in> set [?row]" by simp
  have u1: "list_all (\<lambda>m. sm_resource_id m = sm_resource_id ?row \<and>
         time_bucket 60000 (sm_time m) = time_bucket 60000 (sm_time ?row) \<longrightarrow> m = ?row) [?row]"
    by simp
  have u2: "list_all (\<lambda>m. sm_resource_id m = sm_resource_id ?row \<and>
         time_bucket 3600000 (sm_time m) = time_bucket 3600000 (sm_time ?row) \<longrightarrow> m = ?row) [?row]"
    by simp
  note a = duplicate_samples [where cmp = example_cmp and now = 3000 and s = example_two
      and req = "example_request 1000 10" and ts = 1000 and s' = "snd ?i",
      THEN conjunct2, THEN conjunct1, THEN mp, OF i]
  note b = duplicate_samples [where row = ?row and tbl = "server_metrics example_two"
      and rid = "''r1''",
      THEN conjunct2, THEN conjunct2, THEN conjunct1, THEN mp, OF m1]
  note c = duplicate_samples [where row = ?row and tbl = "[?row]" and rid = "''r1''"
      and w = 60000 and st = 0 and en = 5000,
      THEN conjunct2, THEN conjunct2, THEN conjunct2]
  note c1 = c [THEN conjunct1, THEN mp, OF conjI [OF m2 u1 [unfolded list_all_iff]]]
  note c2 = c [THEN conjunct2, THEN mp, OF conjI [OF m2 u2 [unfolded list_all_iff]]]
  show ?thesis
    by (intro conjI)
       (rule i a m1 m2 u1 u2 c1 c2 b [THEN conjunct2, THEN conjunct1]
          b [THEN conjunct2, THEN conjunct2, THEN conjunct1])+
qed

section \<open>Claim C8: range queries\<close>

text \<open>
  Claim C8: a range query returns buckets within [start, end] in ascending order,
  and an empty sequence, not an error, when start is after end. For server, website
  and network resources this is lemma \<open>get_metrics_range\<close>. For a database
  resource the statement of the route names columns the table does not have, and
  the request fails whatever the range: here the owner of the database resource
  \<open>d1\<close> asks for the range from 200 to 100 and gets status 500, where the same
  request for the server \<open>r1\<close> gets the empty sequence.
\<close>

theorem database_range_query_fails:
  "find (visible_resource example_user ''d1'') (resources example_sys) =
     Some \<lparr>r_id = ''d1'', r_user_id = ''u1'', r_type = Database, r_name = ''orders'',
           r_status = Unknown, r_last_seen_at = None\<rparr>
 \<and> get_metrics example_user example_sys ''d1'' 200 100 60000 = Inl (HttpError 500 ''Internal Server Error'')
 \<and> get_metrics example_user example_sys ''r1'' 200 100 60000 = Inr (ServerData [])"
  by code_simp

section \<open>Claim C9: batch ingestion\<close>



section \<open>Claim C10: the live feed before authentication\<close>

text \<open>
  Claim C10 as stated: every frame received before a successful authentication,
  other than an \<open>auth\<close> frame, is answered with "Not authenticated" and the
  connection is closed. A frame that is not JSON is answered with "Invalid message
  format" by the catch block, and the connection stays open.
\<close>

theorem malformed_frame_counterexample:
  "on_message (\<lambda>t. None) 0 (fst ws_open) NotJson = (fst ws_open, [SendError ''Invalid message format''])
   \<and> \<not> authenticated (fst ws_open)
   \<and> snd (on_message (\<lambda>t. None) 0 (fst ws_open) NotJson) \<noteq> [SendError ''Not authenticated'', CloseSocket]"
  by (simp add: on_message_def ws_open_def)

text \<open>
  Claim C10, amended: on a connection that is not authenticated, every frame that
  decodes to a JSON value other than \<open>null\<close> and whose \<open>type\<close> is not \<open>auth\<close>
  (a ping included) is answered with "Not authenticated" and the socket is closed;
  a frame that is not JSON, or decodes to \<open>null\<close>, is answered with "Invalid
  message format" and the socket is left open; and as long as no \<open>auth\<close> frame
  with a valid token has arrived, the server sends no pong and no subscription
  acknowledgement.
\<close>

theorem unauthenticated_frames:
  assumes "\<not> authenticated c"
  shows "(d_type d \<noteq> Some ''auth'' \<longrightarrow>
            on_message verify now c (JsonData d) = (c, [SendError ''Not authenticated'', CloseSocket]))
       \<and> on_message verify now c NotJson = (c, [SendError ''Invalid message format''])
       \<and> on_message verify now c JsonNull = (c, [SendError ''Invalid message format''])
       \<and> ((\<forall>f \<in> set frames. \<not> good_auth verify (snd f)) \<longrightarrow>
            (\<forall>out \<in> set (ws_run verify c frames). \<not> feed_out out))"
  using assms ws_run_unauthenticated [of c frames verify]
  by (simp add: on_message_def)

text \<open>The amended claim on a fresh connection that receives a ping and then a frame that is not JSON.\<close>

theorem unauthenticated_frames_witness:
  "\<not> authenticated (fst ws_open)
 \<and> d_type example_ping \<noteq> Some ''auth''
 \<and> on_message (\<lambda>t. None) 7 (fst ws_open) (JsonData example_ping)
      = (fst ws_open, [SendError ''Not authenticated'', CloseSocket])
 \<and> list_all (\<lambda>f. \<not> good_auth (\<lambda>t. None) (snd f)) [(7::timestamp, JsonData example_ping), (8, NotJson)]
 \<and> list_all (\<lambda>out. \<not> feed_out out)
      (ws_run (\<lambda>t. None) (fst ws_open) [(7, JsonData example_ping), (8, NotJson)])"
proof -
  have h1: "\<not> authenticated (fst ws_open)" by (simp add: ws_open_def)
  have h2: "d_type example_ping \<noteq> Some ''auth''" by (simp add: example_ping_def)
  have h3: "\<forall>f \<in> set [(7::timestamp, JsonData example_ping), (8, NotJson)]. \<not> good_auth (\<lambda>t. None) (snd f)"
    by (simp add: good_auth_def example_ping_def)
  note a = unauthenticated_frames [OF h1, of example_ping "\<lambda>t. None" 7
      "[(7, JsonData example_ping), (8, NotJson)]"]
  show ?thesis
    by (intro conjI)
       (rule h1 h2 h3 [folded list_all_iff] a [THEN conjunct1, THEN mp, OF h2]
          a [THEN conjunct2, THEN conjunct2, THEN conjunct2, THEN mp, OF h3, folded list_all_iff])+
qed

end
